theory Spec2Isabelle
  imports Main
begin

section \<open>Values, the construct tree and the composition pass\<close>

text \<open>
  The repository is a set of CDKTF constructs (TypeScript). Each class constructor
  registers itself under its scope (\<open>super(scope, id)\<close>) and then declares resources and
  nested constructs under \<open>this\<close>. The embedding keeps that shape: a constructor is a
  state transformer over the children of the scope it is called with, it may throw, and
  whatever it registered before throwing stays registered.
\<close>

type_synonym path = "string list"

text \<open>
  JavaScript values as the constructors see them. \<open>Ref p a\<close> is the token a resource
  getter returns (attribute \<open>a\<close> of the declaration at path \<open>p\<close>, resolved by the
  provisioning engine), \<open>Cat\<close> is a template literal whose holes are not all plain
  strings, \<open>Res p\<close> is a resource object, \<open>Call\<close> a Terraform function (\<open>Fn.tonumber\<close>,
  \<open>Fn.templatefile\<close>, \<open>Fn.file\<close>, \<open>Fn.filebase64\<close>). A string is a list of code units
  below 256.
\<close>

datatype jsval =
    Undefined
  | Str string
  | Num int
  | Bool bool
  | Ref path string
  | Cat "jsval list"
  | Arr "jsval list"
  | Obj "(string \<times> jsval) list"
  | Res path
  | Call string "jsval list"

type_synonym obj = "(string \<times> jsval) list"

datatype node =
    Resource string obj
  | Scope string "(string \<times> node) list"

datatype error =
    DuplicateIdentifierError path
  | ConfigurationError string
  | TypeError string

text \<open>
  The state a constructor works on: \<open>kids\<close> are the children registered so far under
  the scope at hand, in registration order; \<open>arrays\<close> is the store of the mutable
  arrays callers own (an address is an index).
\<close>

record world =
  kids :: "(string \<times> node) list"
  arrays :: "jsval list list"

type_synonym 'a comp = "world \<Rightarrow> (error + 'a) \<times> world"

definition ret :: "'a \<Rightarrow> 'a comp" where
  "ret x s = (Inr x, s)"

definition throw :: "error \<Rightarrow> 'a comp" where
  "throw e s = (Inl e, s)"

definition bnd :: "'a comp \<Rightarrow> ('a \<Rightarrow> 'b comp) \<Rightarrow> 'b comp" where
  "bnd m f s = (case m s of (Inl e, s') \<Rightarrow> (Inl e, s') | (Inr x, s') \<Rightarrow> f x s')"

definition child_ids :: "world \<Rightarrow> string set" where
  "child_ids s = set (map fst (kids s))"

text \<open>
  Modelled from the spec: the registration of a declaration under its parent (the
  \<open>Construct\<close> and \<open>TerraformResource\<close> base classes are library code, not in the
  repository). Section 4.2: a declaration registers itself into the enclosing construct's
  child list; section 7: a second registration of the same logical id under the same
  parent raises DuplicateIdentifierError at once.
\<close>

definition resource :: "path \<Rightarrow> string \<Rightarrow> string \<Rightarrow> obj \<Rightarrow> path comp" where
  "resource this k i cfg s =
     (if i \<in> child_ids s then (Inl (DuplicateIdentifierError (this @ [i])), s)
      else (Inr (this @ [i]), s\<lparr>kids := kids s @ [(i, Resource k cfg)]\<rparr>))"

text \<open>
  Modelled from the spec: \<open>super(scope, id)\<close> followed by the constructor's body. The
  new construct starts with no children; the body runs on them with the path of \<open>this\<close>;
  the construct stays attached to its scope with whatever the body registered, also
  when the body throws.
\<close>

definition construct :: "path \<Rightarrow> string \<Rightarrow> string \<Rightarrow> (path \<Rightarrow> 'a comp) \<Rightarrow> 'a comp" where
  "construct scope c i body s =
     (if i \<in> child_ids s then (Inl (DuplicateIdentifierError (scope @ [i])), s)
      else (case body (scope @ [i]) (s\<lparr>kids := []\<rparr>) of
              (r, s') \<Rightarrow> (r, s'\<lparr>kids := kids s @ [(i, Scope c (kids s'))]\<rparr>)))"

text \<open>
  A computation that neither reads nor writes the store of arrays: its result and the
  children it registers depend on the children alone.
\<close>

definition tree_local :: "'a comp \<Rightarrow> bool" where
  "tree_local m =
     (\<forall>s. fst (m s) = fst (m (s\<lparr>arrays := []\<rparr>))
          \<and> kids (snd (m s)) = kids (snd (m (s\<lparr>arrays := []\<rparr>)))
          \<and> arrays (snd (m s)) = arrays s)"

text \<open>
  A computation that only appends resources of the given kinds to the children it finds.
\<close>

fun plain_resources :: "string list \<Rightarrow> (string \<times> node) list \<Rightarrow> bool" where
  "plain_resources ks [] = True"
| "plain_resources ks ((i, Resource k c) # r) = (k \<in> set ks \<and> plain_resources ks r)"
| "plain_resources ks ((i, Scope c ch) # r) = False"

definition appends_only :: "string list \<Rightarrow> 'a comp \<Rightarrow> bool" where
  "appends_only ks m =
     (\<forall>s. \<exists>rest. kids (snd (m s)) = kids s @ rest \<and> plain_resources ks rest)"

subsection \<open>JavaScript string operations the constructors use\<close>

definition includes_chr :: "string \<Rightarrow> char \<Rightarrow> bool" where
  "includes_chr s c = (c \<in> set s)"

fun split_on :: "char \<Rightarrow> string \<Rightarrow> string list" where
  "split_on c [] = [[]]"
| "split_on c (x # xs) =
     (if x = c then [] # split_on c xs
      else (case split_on c xs of [] \<Rightarrow> [[x]] | w # ws \<Rightarrow> (x # w) # ws))"

text \<open>\<open>xs[i]\<close> of JavaScript: \<open>undefined\<close> out of range.\<close>

definition at_index :: "string list \<Rightarrow> nat \<Rightarrow> jsval" where
  "at_index xs i = (if i < length xs then Str (xs ! i) else Undefined)"

text \<open>\<open>!s\<close> for an optional string: true for \<open>undefined\<close> and for the empty string.\<close>

definition falsy_str :: "string option \<Rightarrow> bool" where
  "falsy_str s = (case s of None \<Rightarrow> True | Some v \<Rightarrow> v = [])"

text \<open>Truthiness of an optional boolean and of a value.\<close>

definition truthy_bool :: "bool option \<Rightarrow> bool" where
  "truthy_bool b = (b = Some True)"

fun truthy :: "jsval \<Rightarrow> bool" where
  "truthy Undefined = False"
| "truthy (Str s) = (s \<noteq> [])"
| "truthy (Num n) = (n \<noteq> 0)"
| "truthy (Bool b) = b"
| "truthy (Cat xs) = list_ex (\<lambda>x. x \<noteq> Str []) xs"
| "truthy _ = True"

text \<open>
  Object spread \<open>{...base, ...over}\<close>: every own property of \<open>over\<close> is assigned onto a
  copy of \<open>base\<close>, in order; spreading \<open>undefined\<close> adds nothing.
\<close>

fun set_prop :: "string \<Rightarrow> jsval \<Rightarrow> obj \<Rightarrow> obj" where
  "set_prop k v [] = [(k, v)]"
| "set_prop k v ((k', v') # ps) = (if k' = k then (k, v) # ps else (k', v') # set_prop k v ps)"

definition spread :: "obj \<Rightarrow> obj option \<Rightarrow> obj" where
  "spread base over =
     (case over of None \<Rightarrow> base | Some ps \<Rightarrow> foldl (\<lambda>acc (k, v). set_prop k v acc) base ps)"

section \<open>gcp-project/index.ts\<close>

record GcpProjectConfig =
  projectId :: string
  displayName :: "string option"
  organizationId :: string
  billingAccountId :: string
  githubInfraRepo :: string
  githubEnvironment :: string
  terraformStateLocation :: "string option"
  googleBeta :: jsval
  dependsOn :: "jsval list option"

record GcpProject_obj =
  project :: path
  tfstateBucketName :: string
  dnsService :: path
  githubIdentityPool :: path
  terraformAdminServiceAccount :: path
  terraformViewerServiceAccount :: path
  terraformKeyring :: path
  terraformSecretsKey :: path

definition GcpProject_body :: "GcpProjectConfig \<Rightarrow> path \<Rightarrow> GcpProject_obj comp" where
  "GcpProject_body config this =
   bnd (resource this ''Project'' ''this''
         [(''projectId'', Str (projectId config)),
          (''name'', Str (case displayName config of None \<Rightarrow> projectId config | Some d \<Rightarrow> d)),
          (''orgId'', Str (organizationId config)),
          (''billingAccount'', Str (billingAccountId config)),
          (''labels'', Obj [(''firebase'', Str ''enabled'')]),
          (''dependsOn'', case dependsOn config of None \<Rightarrow> Undefined | Some ds \<Rightarrow> Arr ds)])
     (\<lambda>project'.
   bnd (resource this ''GoogleFirebaseProject'' ''firebase''
         [(''project'', Ref project' ''projectId''),
          (''provider'', googleBeta config)]) (\<lambda>_.
   bnd (resource this ''StorageBucket'' ''tfstate''
         [(''project'', Ref project' ''projectId''),
          (''name'', Cat [Ref project' ''projectId'', Str ''-tfstate'']),
          (''location'', Str (case terraformStateLocation config of None \<Rightarrow> ''US'' | Some l \<Rightarrow> l)),
          (''storageClass'', Str ''STANDARD''),
          (''versioning'', Obj [(''enabled'', Bool True)])]) (\<lambda>tfstateBucket.
   bnd (resource this ''ProjectService'' ''resourcemanager''
         [(''project'', Ref project' ''projectId''),
          (''service'', Str ''cloudresourcemanager.googleapis.com'')]) (\<lambda>_.
   bnd (resource this ''ProjectService'' ''dns''
         [(''project'', Ref project' ''projectId''),
          (''service'', Str ''dns.googleapis.com'')]) (\<lambda>dnsService'.
   bnd (resource this ''ProjectService'' ''iam''
         [(''project'', Ref project' ''projectId''),
          (''service'', Str ''iam.googleapis.com'')]) (\<lambda>iam.
   bnd (resource this ''IamWorkloadIdentityPool'' ''github-id-pool''
         [(''project'', Ref project' ''projectId''),
          (''workloadIdentityPoolId'', Str ''github''),
          (''dependsOn'', Arr [Res iam])]) (\<lambda>githubIdentityPool'.
   let orgName = at_index (split_on CHR ''/'' (githubInfraRepo config)) 0 in
   bnd (resource this ''IamWorkloadIdentityPoolProvider'' ''github-id-provider''
         [(''project'', Ref project' ''projectId''),
          (''workloadIdentityPoolProviderId'', Str ''github''),
          (''workloadIdentityPoolId'', Ref githubIdentityPool' ''workloadIdentityPoolId''),
          (''attributeMapping'',
             Obj [(''google.subject'', Str ''assertion.sub''),
                  (''attribute.actor'', Str ''assertion.actor''),
                  (''attribute.repository'', Str ''assertion.repository''),
                  (''attribute.repository_owner'', Str ''assertion.repository_owner'')]),
          (''attributeCondition'',
             Cat [Str (''assertion.repository_owner == '' @ [CHR 0x27]), orgName,
                  Str [CHR 0x27]]),
          (''oidc'', Obj [(''issuerUri'', Str ''https://token.actions.githubusercontent.com'')])])
     (\<lambda>idProvider.
   bnd (resource this ''TerraformOutput'' (''github-identity-provider-'' @ projectId config)
         [(''staticId'', Bool True),
          (''value'', Ref idProvider ''name'')]) (\<lambda>_.
   bnd (resource this ''ProjectService'' ''kms-service''
         [(''project'', Ref project' ''projectId''),
          (''service'', Str ''cloudkms.googleapis.com'')]) (\<lambda>kmsService.
   bnd (resource this ''KmsKeyRing'' ''terraform-keyring''
         [(''project'', Ref project' ''projectId''),
          (''name'', Str ''terraform''),
          (''location'', Str ''global''),
          (''dependsOn'', Arr [Res kmsService])]) (\<lambda>terraformKeyring'.
   bnd (resource this ''KmsCryptoKey'' ''terraform-key''
         [(''keyRing'', Ref terraformKeyring' ''id''),
          (''name'', Str ''secrets'')]) (\<lambda>terraformSecretsKey'.
   bnd (resource this ''ServiceAccount'' ''terraform-admin''
         [(''project'', Ref project' ''projectId''),
          (''accountId'', Str ''terraform-admin'')]) (\<lambda>terraformAdmin.
   bnd (resource this ''ProjectIamMember'' ''terraform-admin-owner''
         [(''project'', Ref project' ''projectId''),
          (''role'', Str ''roles/owner''),
          (''member'', Ref terraformAdmin ''member'')]) (\<lambda>_.
   bnd (resource this ''ServiceAccountIamMember'' ''terraform-admin-github-actions''
         [(''serviceAccountId'', Ref terraformAdmin ''name''),
          (''role'', Str ''roles/iam.serviceAccountTokenCreator''),
          (''member'',
             Cat [Str ''principal://iam.googleapis.com/'', Ref githubIdentityPool' ''name'',
                  Str ''/subject/repo:'', Str (githubInfraRepo config),
                  Str '':environment:'', Str (githubEnvironment config)])]) (\<lambda>_.
   bnd (resource this ''ServiceAccount'' ''terraform-viewer''
         [(''project'', Ref project' ''projectId''),
          (''accountId'', Str ''terraform-viewer'')]) (\<lambda>terraformViewer.
   bnd (resource this ''ProjectIamMember'' ''terraform-viewer-viewer''
         [(''project'', Ref project' ''projectId''),
          (''role'', Str ''roles/viewer''),
          (''member'', Ref terraformViewer ''member'')]) (\<lambda>_.
   bnd (resource this ''ProjectIamMember'' ''terraform-viewer-serviceUser''
         [(''project'', Ref project' ''projectId''),
          (''role'', Str ''roles/serviceusage.serviceUsageConsumer''),
          (''member'', Ref terraformViewer ''member'')]) (\<lambda>_.
   bnd (resource this ''KmsCryptoKeyIamMember'' ''terraform-viewer-key-decrypter''
         [(''cryptoKeyId'', Ref terraformSecretsKey' ''id''),
          (''role'', Str ''roles/cloudkms.cryptoOperator''),
          (''member'', Ref terraformViewer ''member'')]) (\<lambda>_.
   bnd (resource this ''ProjectIamMember'' ''terraform-viewer-key-secretaccess''
         [(''project'', Ref project' ''projectId''),
          (''role'', Str ''roles/secretmanager.secretAccessor''),
          (''member'', Ref terraformViewer ''member'')]) (\<lambda>_.
   bnd (resource this ''ServiceAccountIamMember'' ''terraform-viewer-github-actions''
         [(''serviceAccountId'', Ref terraformViewer ''name''),
          (''role'', Str ''roles/iam.serviceAccountTokenCreator''),
          (''member'',
             Cat [Str ''principal://iam.googleapis.com/'', Ref githubIdentityPool' ''name'',
                  Str ''/subject/repo:'', Str (githubInfraRepo config),
                  Str '':environment:'', Str (githubEnvironment config), Str ''-viewer''])])
     (\<lambda>_.
   bnd (resource this ''DataGoogleIamTestablePermissions'' ''gcp-testable-permissions''
         [(''fullResourceName'',
             Cat [Str ''//cloudresourcemanager.googleapis.com/projects/'',
                  Ref project' ''projectId'']),
          (''stages'', Arr [Str ''GA'', Str ''BETA''])]) (\<lambda>testablePermissions.
   bnd (resource this ''ProjectIamCustomRole'' ''iam-policy-viewer''
         [(''roleId'', Str ''iamPolicyViewer''),
          (''title'', Str ''IAM Policy Viewer''),
          (''project'', Ref project' ''projectId''),
          (''permissions'',
             Call ''forExpressionForList''
               [Ref testablePermissions ''permissions'',
                Str ''val.name if endswith(val.name, \".getIamPolicy\")''])])
     (\<lambda>iamPolicyViewerRole.
   bnd (resource this ''ProjectIamMember'' ''terraform-viewer-iam-policy-viewer''
         [(''project'', Ref project' ''projectId''),
          (''role'', Ref iamPolicyViewerRole ''name''),
          (''member'', Ref terraformViewer ''member'')]) (\<lambda>_.
   bnd (resource this ''StorageBucketIamMember'' ''terraform-viewer-tfstate''
         [(''bucket'', Ref tfstateBucket ''name''),
          (''role'', Str ''roles/storage.objectUser''),
          (''member'', Ref terraformViewer ''member'')]) (\<lambda>_.
   ret \<lparr>project = project',
        tfstateBucketName = projectId config @ ''-tfstate'',
        dnsService = dnsService',
        githubIdentityPool = githubIdentityPool',
        terraformAdminServiceAccount = terraformAdmin,
        terraformViewerServiceAccount = terraformViewer,
        terraformKeyring = terraformKeyring',
        terraformSecretsKey = terraformSecretsKey'\<rparr>)))))))))))))))))))))))))"

definition GcpProject :: "GcpProjectConfig \<Rightarrow> path \<Rightarrow> GcpProject_obj comp" where
  "GcpProject config scope =
     construct scope ''GcpProject'' (projectId config) (GcpProject_body config)"

section \<open>github-repository/index.ts\<close>

record GitHubRepositoryConfig =
  name :: string
  adminTeam :: "jsval option"
  repositoryConfig :: "obj option"
  mainRulesetConfig :: "obj option"
  releaseRulesetConfig :: "obj option"
  devEnvironmentConfig :: "obj option"
  devViewerEnvironmentConfig :: "obj option"
  prodEnvironmentConfig :: "obj option"
  prodViewerEnvironmentConfig :: "obj option"

record GitHubRepository_obj =
  repository :: path

text \<open>The defaults of each declaration: the properties written before the spread.\<close>

definition repository_defaults :: "string \<Rightarrow> obj" where
  "repository_defaults n =
     [(''name'', Str n),
      (''autoInit'', Bool True),
      (''vulnerabilityAlerts'', Bool True),
      (''allowMergeCommit'', Bool False),
      (''allowSquashMerge'', Bool True),
      (''allowRebaseMerge'', Bool False),
      (''squashMergeCommitTitle'', Str ''PR_TITLE''),
      (''squashMergeCommitMessage'', Str ''BLANK'')]"

definition bypass_actors :: jsval where
  "bypass_actors =
     Arr [Obj [(''actorType'', Str ''RepositoryRole''),
               (''actorId'', Num 5),
               (''bypassMode'', Str ''always'')]]"

definition main_ruleset_defaults :: "path \<Rightarrow> obj" where
  "main_ruleset_defaults repo =
     [(''repository'', Ref repo ''name''),
      (''name'', Str ''main''),
      (''enforcement'', Str ''active''),
      (''target'', Str ''branch''),
      (''conditions'',
         Obj [(''refName'', Obj [(''include'', Arr [Str ''~DEFAULT_BRANCH'']),
                                 (''exclude'', Arr [])])]),
      (''bypassActors'', bypass_actors),
      (''rules'',
         Obj [(''deletion'', Bool True),
              (''requiredLinearHistory'', Bool True),
              (''pullRequest'', Obj [(''requiredApprovingReviewCount'', Num 1)]),
              (''nonFastForward'', Bool True)])]"

definition release_ruleset_defaults :: "path \<Rightarrow> obj" where
  "release_ruleset_defaults repo =
     [(''repository'', Ref repo ''name''),
      (''name'', Str ''release''),
      (''enforcement'', Str ''active''),
      (''target'', Str ''branch''),
      (''conditions'',
         Obj [(''refName'', Obj [(''include'', Arr [Str ''refs/heads/release/*'']),
                                 (''exclude'', Arr [])])]),
      (''bypassActors'', bypass_actors),
      (''rules'',
         Obj [(''creation'', Bool True),
              (''update'', Bool True),
              (''deletion'', Bool True),
              (''nonFastForward'', Bool True)])]"

definition viewer_environment_defaults :: "path \<Rightarrow> obj" where
  "viewer_environment_defaults repo =
     [(''repository'', Ref repo ''name''),
      (''environment'', Str ''dev-viewer'')]"

definition environment_defaults :: "path \<Rightarrow> string \<Rightarrow> obj" where
  "environment_defaults repo e =
     [(''repository'', Ref repo ''name''),
      (''environment'', Str e),
      (''canAdminsBypass'', Bool True),
      (''deploymentBranchPolicy'',
         Obj [(''protectedBranches'', Bool False),
              (''customBranchPolicies'', Bool True)])]"

definition deployment_policy :: "path \<Rightarrow> path \<Rightarrow> string \<Rightarrow> obj" where
  "deployment_policy repo e pat =
     [(''repository'', Ref repo ''name''),
      (''environment'', Ref e ''environment''),
      (''branchPattern'', Str pat)]"

definition GitHubRepository_body ::
  "GitHubRepositoryConfig \<Rightarrow> path \<Rightarrow> GitHubRepository_obj comp" where
  "GitHubRepository_body config this =
   bnd (resource this ''Repository'' ''this''
         (spread (repository_defaults (name config)) (repositoryConfig config))) (\<lambda>repo.
   bnd (if (case adminTeam config of None \<Rightarrow> False | Some t \<Rightarrow> truthy t)
        then bnd (resource this ''TeamRepository'' ''admin-team''
                   [(''repository'', Ref repo ''name''),
                    (''teamId'', (case adminTeam config of None \<Rightarrow> Undefined | Some t \<Rightarrow> t)),
                    (''permission'', Str ''admin'')]) (\<lambda>_. ret ())
        else ret ()) (\<lambda>_.
   bnd (resource this ''RepositoryRuleset'' ''main-ruleset''
         (spread (main_ruleset_defaults repo) (mainRulesetConfig config))) (\<lambda>_.
   bnd (resource this ''RepositoryRuleset'' ''release-ruleset''
         (spread (release_ruleset_defaults repo) (releaseRulesetConfig config))) (\<lambda>_.
   bnd (resource this ''RepositoryEnvironment'' ''env-dev-viewer''
         (spread (viewer_environment_defaults repo) (devViewerEnvironmentConfig config))) (\<lambda>_.
   bnd (resource this ''RepositoryEnvironment'' ''env-dev''
         (spread (environment_defaults repo ''dev'') (devEnvironmentConfig config)))
     (\<lambda>devEnvironment.
   bnd (resource this ''RepositoryEnvironmentDeploymentPolicy'' ''env-dev-policy''
         (deployment_policy repo devEnvironment ''main'')) (\<lambda>_.
   bnd (resource this ''RepositoryEnvironment'' ''env-prod-viewer''
         (spread (environment_defaults repo ''prod-viewer'') (prodViewerEnvironmentConfig config)))
     (\<lambda>prodViewerEnvironment.
   bnd (resource this ''RepositoryEnvironmentDeploymentPolicy'' ''env-prod-viewer-policy''
         (deployment_policy repo prodViewerEnvironment ''release/*'')) (\<lambda>_.
   bnd (resource this ''RepositoryEnvironment'' ''env-prod''
         (spread (environment_defaults repo ''prod'') (prodEnvironmentConfig config)))
     (\<lambda>prodEnvironment.
   bnd (resource this ''RepositoryEnvironmentDeploymentPolicy'' ''env-prod-policy''
         (deployment_policy repo prodEnvironment ''release/*'')) (\<lambda>_.
   ret \<lparr>repository = repo\<rparr>)))))))))))"

definition GitHubRepository ::
  "GitHubRepositoryConfig \<Rightarrow> path \<Rightarrow> GitHubRepository_obj comp" where
  "GitHubRepository config scope =
     construct scope ''GitHubRepository'' (name config) (GitHubRepository_body config)"

section \<open>bootstrap/index.ts\<close>

record BootstrapConfig =
  name :: string
  organizationId :: string
  billingAccountId :: string
  githubOrg :: string
  domain :: "string option"
  appRepositoryConfig :: "obj option"
  infraRepositoryConfig :: "obj option"
  disableGitHubWorkflows :: "bool option"
  googleBeta :: jsval

record Bootstrap_obj =
  sysadminProject :: GcpProject_obj
  devProject :: GcpProject_obj
  prodProject :: GcpProject_obj
  apprepo :: GitHubRepository_obj
  infraRepo :: GitHubRepository_obj
  githubAdmins :: path

text \<open>
  The configuration each of the three projects is composed with: the project id is the
  name with a suffix, the infrastructure repository is \<open>githubOrg/name-infra\<close>.
\<close>

definition project_config :: "BootstrapConfig \<Rightarrow> string \<Rightarrow> string \<Rightarrow> GcpProjectConfig" where
  "project_config config suffix e =
     \<lparr>projectId = BootstrapConfig.name config @ suffix,
      displayName = None,
      GcpProjectConfig.organizationId = BootstrapConfig.organizationId config,
      GcpProjectConfig.billingAccountId = BootstrapConfig.billingAccountId config,
      githubInfraRepo = githubOrg config @ ''/'' @ BootstrapConfig.name config @ ''-infra'',
      githubEnvironment = e,
      terraformStateLocation = None,
      GcpProjectConfig.googleBeta = BootstrapConfig.googleBeta config,
      dependsOn = None\<rparr>"

definition repository_config ::
  "string \<Rightarrow> jsval \<Rightarrow> obj option \<Rightarrow> obj option \<Rightarrow> GitHubRepositoryConfig" where
  "repository_config n team rc prodc =
     \<lparr>GitHubRepositoryConfig.name = n,
      adminTeam = Some team,
      repositoryConfig = rc,
      mainRulesetConfig = None,
      releaseRulesetConfig = None,
      devEnvironmentConfig = None,
      devViewerEnvironmentConfig = None,
      prodEnvironmentConfig = prodc,
      prodViewerEnvironmentConfig = None\<rparr>"

text \<open>\<open>path.join(__dirname, "templates", file)\<close>, for a directory given in normal form.\<close>

definition template_path :: "string \<Rightarrow> string \<Rightarrow> string" where
  "template_path dirname file = dirname @ ''/templates/'' @ file"

text \<open>\<open>s.replaceAll(".", "-")\<close>\<close>

definition dots_to_dashes :: "string \<Rightarrow> string" where
  "dots_to_dashes s = map (\<lambda>c. if c = CHR ''.'' then CHR ''-'' else c) s"

text \<open>
  The constructor from its first conditional on: the workflow files unless disabled, the
  DNS zones when a domain is given, and the instance.
\<close>

definition Bootstrap_tail ::
  "string \<Rightarrow> BootstrapConfig \<Rightarrow> path \<Rightarrow> GcpProject_obj \<Rightarrow> GcpProject_obj \<Rightarrow> GcpProject_obj
   \<Rightarrow> path \<Rightarrow> GitHubRepository_obj \<Rightarrow> GitHubRepository_obj \<Rightarrow> Bootstrap_obj comp" where
  "Bootstrap_tail dirname config this sysadminProject' devProject' prodProject' githubAdmins'
     apprepo' infraRepo' =
   bnd (if \<not> truthy_bool (disableGitHubWorkflows config)
        then
          (let templateVars =
                 Obj [(''gcp_project_id_dev'', Ref (project devProject') ''projectId''),
                      (''gcp_project_number_dev'', Ref (project devProject') ''number''),
                      (''gcp_project_id_prod'', Ref (project prodProject') ''projectId''),
                      (''gcp_project_number_prod'', Ref (project prodProject') ''number'')]
           in
           bnd (resource this ''RepositoryFile'' ''infra-ci-pr''
                 [(''repository'', Ref (repository infraRepo') ''name''),
                  (''file'', Str ''.github/workflows/pr.yaml''),
                  (''content'',
                     Call ''templatefile''
                       [Str (template_path dirname ''infraWorkflowPr.yaml.tftpl''),
                        templateVars])]) (\<lambda>_.
           bnd (resource this ''RepositoryFile'' ''infra-ci-main''
                 [(''repository'', Ref (repository infraRepo') ''name''),
                  (''file'', Str ''.github/workflows/main.yaml''),
                  (''content'',
                     Call ''templatefile''
                       [Str (template_path dirname ''infraWorkflowMain.yaml.tftpl''),
                        templateVars])]) (\<lambda>_. ret ())))
        else ret ()) (\<lambda>_.
   bnd (case domain config of
          None \<Rightarrow> ret ()
        | Some d \<Rightarrow>
            if d = [] then ret ()
            else
              bnd (resource this ''DnsManagedZone'' ''alpha-dns-zone''
                    [(''project'', Ref (project devProject') ''projectId''),
                     (''name'', Str (''alpha-'' @ dots_to_dashes d)),
                     (''dnsName'', Str (''alpha.'' @ d @ ''.'')),
                     (''dependsOn'', Arr [Res (dnsService devProject')])]) (\<lambda>alphaDnsZone.
              bnd (resource this ''DnsManagedZone'' ''prod-dns-zone''
                    [(''project'', Ref (project prodProject') ''projectId''),
                     (''name'', Str (dots_to_dashes d)),
                     (''dnsName'', Str (d @ ''.'')),
                     (''dependsOn'', Arr [Res (dnsService prodProject')])]) (\<lambda>prodDnsZone.
              bnd (resource this ''DnsRecordSet'' ''prod-alpha-ns-delegate''
                    [(''project'', Ref (project prodProject') ''projectId''),
                     (''managedZone'', Ref prodDnsZone ''name''),
                     (''name'', Str (''alpha.'' @ d @ ''.'')),
                     (''type'', Str ''NS''),
                     (''rrdatas'', Ref alphaDnsZone ''nameServers''),
                     (''ttl'', Num 21600)]) (\<lambda>_. ret ())))) (\<lambda>_.
   ret \<lparr>sysadminProject = sysadminProject', devProject = devProject',
        prodProject = prodProject', apprepo = apprepo', infraRepo = infraRepo',
        githubAdmins = githubAdmins'\<rparr>))"

definition Bootstrap_body :: "string \<Rightarrow> BootstrapConfig \<Rightarrow> path \<Rightarrow> Bootstrap_obj comp" where
  "Bootstrap_body dirname config this =
   bnd (GcpProject (project_config config ''-sysadmin'' ''prod'') this) (\<lambda>sysadminProject'.
   bnd (GcpProject (project_config config ''-dev'' ''dev'') this) (\<lambda>devProject'.
   bnd (GcpProject (project_config config ''-prod'' ''prod'') this) (\<lambda>prodProject'.
   bnd (resource this ''Team'' ''github-admins''
         [(''name'', Str (BootstrapConfig.name config @ ''-admins'')),
          (''description'',
             Str (''Administrators for the '' @ BootstrapConfig.name config @ '' project'')),
          (''privacy'', Str ''closed'')]) (\<lambda>githubAdmins'.
   bnd (GitHubRepository
         (repository_config (BootstrapConfig.name config) (Ref githubAdmins' ''id'')
            (appRepositoryConfig config) None) this) (\<lambda>apprepo'.
   bnd (GitHubRepository
         (repository_config (BootstrapConfig.name config @ ''-infra'') (Ref githubAdmins' ''id'')
            (infraRepositoryConfig config)
            (Some [(''reviewers'',
                    Arr [Obj [(''teams'',
                              Arr [Call ''tonumber'' [Ref githubAdmins' ''id'']])]])])) this)
     (\<lambda>infraRepo'.
   Bootstrap_tail dirname config this sysadminProject' devProject' prodProject' githubAdmins'
     apprepo' infraRepo'))))))"

definition Bootstrap :: "string \<Rightarrow> BootstrapConfig \<Rightarrow> path \<Rightarrow> Bootstrap_obj comp" where
  "Bootstrap dirname config scope =
     construct scope ''Bootstrap'' (BootstrapConfig.name config) (Bootstrap_body dirname config)"

section \<open>The later revision of bootstrap/index.ts\<close>

text \<open>
  The sources hold a second \<open>Bootstrap\<close> class, after the GitHubRepository class in the
  file github-repository/index.ts (from line 269 on): a later revision of the same
  constructor, with the same config interface and the same public fields. It gives the
  prod environment of the infra repository a \<open>dependsOn\<close>, declares GitHub Actions
  variables for both repositories, and commits the workflow files to a branch whose name
  ends in a random string, merged through a pull request. The random string is a
  \<open>StringResource\<close> of the random provider.
\<close>







section \<open>curiostack/index.ts\<close>

record CurioStackConfig =
  project :: string
  location :: string
  domain :: string
  githubRepo :: string
  githubIdentityPoolId :: "string option"
  githubEnvironment :: "string option"
  terraformViewerServiceAccountId :: "string option"
  googleBeta :: jsval

record Apps_obj =
  dockerRepository :: path
  ghcrRepository :: path
  githubEnvironmentIamMember :: jsval
  runService :: path

definition missing_env_message :: string where
  "missing_env_message =
     ''project must include a `-` to determine the GitHub environment, or githubEnv must be provided''"

text \<open>\<open>config.githubEnvironment ?? config.project.split("-")[1]\<close>\<close>

definition githubEnv_of :: "string option \<Rightarrow> string \<Rightarrow> jsval" where
  "githubEnv_of env proj =
     (case env of Some e \<Rightarrow> Str e | None \<Rightarrow> at_index (split_on CHR ''-'' proj) 1)"

definition Apps_body :: "CurioStackConfig \<Rightarrow> path \<Rightarrow> Apps_obj comp" where
  "Apps_body config this =
   bnd (resource this ''ProjectService'' ''service-artifactregistry''
         [(''service'', Str ''artifactregistry.googleapis.com'')]) (\<lambda>artifactRegistryService.
   bnd (resource this ''ProjectService'' ''service-run''
         [(''service'', Str ''run.googleapis.com'')]) (\<lambda>runService'.
   bnd (resource this ''ProjectService'' ''service-cloudtrace''
         [(''service'', Str ''cloudtrace.googleapis.com'')]) (\<lambda>_.
   bnd (resource this ''ProjectService'' ''service-monitoring''
         [(''service'', Str ''monitoring.googleapis.com'')]) (\<lambda>_.
   bnd (resource this ''ProjectIamCustomRole'' ''cloudrun-deployer''
         [(''roleId'', Str ''cloudRunDeployer''),
          (''title'', Str ''Cloud Run Deployer''),
          (''permissions'', Arr [Str ''run.operations.get'', Str ''run.services.create'',
                                Str ''run.services.get'', Str ''run.services.update''])]) (\<lambda>deployerRole.
   bnd (resource this ''DataGoogleIamWorkloadIdentityPool'' ''github-id-pool''
         [(''workloadIdentityPoolId'',
             Str (case githubIdentityPoolId config of None \<Rightarrow> ''github'' | Some i \<Rightarrow> i)),
          (''provider'', googleBeta config)]) (\<lambda>githubIdPool.
   if falsy_str (githubEnvironment config) \<and> \<not> includes_chr (project config) CHR ''-''
   then throw (ConfigurationError missing_env_message)
   else
   let githubEnv = githubEnv_of (githubEnvironment config) (project config);
       member = Cat [Str ''principal://iam.googleapis.com/'', Ref githubIdPool ''name'',
                     Str ''/subject/repo:'', Str (githubRepo config),
                     Str '':environment:'', githubEnv]
   in
   bnd (resource this ''ArtifactRegistryRepository'' ''docker-registry''
         [(''repositoryId'', Str ''docker''),
          (''location'', Str (location config)),
          (''format'', Str ''DOCKER''),
          (''dependsOn'', Arr [Res artifactRegistryService])]) (\<lambda>dockerRepository'.
   bnd (resource this ''ProjectIamMember'' ''github-cloudrun-deploy''
         [(''project'', Str (project config)),
          (''role'', Ref deployerRole ''name''),
          (''member'', member)]) (\<lambda>_.
   bnd (resource this ''ArtifactRegistryRepositoryIamMember'' ''docker-member-github''
         [(''repository'', Ref dockerRepository' ''name''),
          (''location'', Ref dockerRepository' ''location''),
          (''role'', Str ''roles/artifactregistry.writer''),
          (''member'', member)]) (\<lambda>_.
   bnd (resource this ''ArtifactRegistryRepository'' ''ghcr-repo''
         [(''repositoryId'', Str ''ghcr''),
          (''location'', Str (location config)),
          (''format'', Str ''DOCKER''),
          (''mode'', Str ''REMOTE_REPOSITORY''),
          (''remoteRepositoryConfig'',
             Obj [(''dockerRepository'',
                   Obj [(''customRepository'', Obj [(''uri'', Str ''https://ghcr.io'')])])]),
          (''dependsOn'', Arr [Res artifactRegistryService])]) (\<lambda>ghcrRepository'.
   ret \<lparr>dockerRepository = dockerRepository', ghcrRepository = ghcrRepository',
        githubEnvironmentIamMember = member, runService = runService'\<rparr>))))))))))"

definition Identity_body :: "CurioStackConfig \<Rightarrow> path \<Rightarrow> unit comp" where
  "Identity_body config this =
   bnd (resource this ''ProjectService'' ''identitytoolkit''
         [(''service'', Str ''identitytoolkit.googleapis.com'')]) (\<lambda>service.
   bnd (resource this ''IdentityPlatformConfig'' ''identity-platform''
         [(''signIn'', Obj [(''email'', Obj [(''enabled'', Bool True)])]),
          (''authorizedDomains'',
             Arr [Str ''localhost'', Str (domain config),
                  Str (project config @ ''.web.app''),
                  Str (project config @ ''.firebaseapp.com'')]),
          (''dependsOn'', Arr [Res service])]) (\<lambda>_.
   bnd (resource this ''ProjectIamCustomRole'' ''firebaseauth-config-secret-viewer''
         [(''project'', Str (project config)),
          (''title'', Str ''Firebase Auth Config Secret Viewer''),
          (''roleId'', Str ''firebaseauthConfigsSecretViewer''),
          (''permissions'', Arr [Str ''firebaseauth.configs.getSecret''])]) (\<lambda>secretViewerRole.
   bnd (resource this ''ProjectIamMember'' ''terraform-viewer-firebase-secret''
         [(''project'', Str (project config)),
          (''role'', Ref secretViewerRole ''name''),
          (''member'',
             Str (''serviceAccount:''
                  @ (case terraformViewerServiceAccountId config of
                       None \<Rightarrow> ''terraform-viewer'' | Some a \<Rightarrow> a)
                  @ ''@'' @ project config @ ''.iam.gserviceaccount.com''))]) (\<lambda>_.
   ret ()))))"

text \<open>
  The instance a \<open>new CurioStack(scope, config)\<close> evaluates to: the five properties
  the constructor assigns. Its users read it as a JavaScript object.
\<close>

definition CurioStack_body :: "CurioStackConfig \<Rightarrow> path \<Rightarrow> jsval comp" where
  "CurioStack_body config this =
   bnd (construct this ''Apps'' ''apps'' (Apps_body config)) (\<lambda>apps.
   bnd (construct this ''Identity'' ''identity'' (Identity_body config)) (\<lambda>_.
   ret (Obj [(''project'', Str (project config)),
             (''dockerRepository'', Res (dockerRepository apps)),
             (''ghcrRepository'', Res (ghcrRepository apps)),
             (''githubEnvironmentIamMember'', githubEnvironmentIamMember apps),
             (''runService'', Res (runService apps))])))"

definition CurioStack :: "CurioStackConfig \<Rightarrow> path \<Rightarrow> jsval comp" where
  "CurioStack config scope = construct scope ''CurioStack'' ''curiostack'' (CurioStack_body config)"

section \<open>curiostack/service.ts\<close>

text \<open>
  Reading a property of a value that came from the caller. Reading from \<open>undefined\<close>
  throws a TypeError; an object yields the property or \<open>undefined\<close>; a resource's getter
  yields the token of that attribute; any other value has no such property.
\<close>

definition getprop :: "jsval \<Rightarrow> string \<Rightarrow> error + jsval" where
  "getprop v k =
     (case v of
        Undefined \<Rightarrow> Inl (TypeError k)
      | Obj ps \<Rightarrow> Inr (case map_of ps k of None \<Rightarrow> Undefined | Some x \<Rightarrow> x)
      | Res p \<Rightarrow> Inr (Ref p k)
      | _ \<Rightarrow> Inr Undefined)"

definition getp :: "jsval \<Rightarrow> string \<Rightarrow> jsval comp" where
  "getp v k s = (getprop v k, s)"

text \<open>
  A string that holds tokens. At composition time a token is a string without \<open>-\<close> in
  it (a marker the library resolves later), and a template literal with tokens in its
  holes is its literal text with such markers in between. \<open>pieces\<close> are the literal
  texts and tokens of a value in order; \<open>segments\<close> cuts them at every \<open>-\<close> of the
  literal text, as \<open>split("-")\<close> does. A hole that holds no string is kept whole: the
  sources interpolate strings and tokens only.
\<close>

fun pieces :: "jsval \<Rightarrow> jsval list" where
  "pieces (Cat xs) = concat (map pieces xs)"
| "pieces v = [v]"

fun segments :: "jsval list \<Rightarrow> jsval list \<Rightarrow> jsval list list" where
  "segments cur [] = [cur]"
| "segments cur (Str s # r) =
     (case split_on CHR ''-'' s of
        [] \<Rightarrow> segments cur r
      | [w] \<Rightarrow> segments (cur @ [Str w]) r
      | w # ws \<Rightarrow>
          (cur @ [Str w]) # map (\<lambda>x. [Str x]) (butlast ws) @ segments [Str (last ws)] r)"
| "segments cur (v # r) = segments (cur @ [v]) r"

definition segment_value :: "jsval list \<Rightarrow> jsval" where
  "segment_value ps = (case ps of [Str s] \<Rightarrow> Str s | _ \<Rightarrow> Cat ps)"

text \<open>
  \<open>project.split("-")[1]\<close> on a value read from the caller's object. On \<open>undefined\<close>
  it is a TypeError, and so it is on a value that is no string and has no \<open>split\<close>
  method: a number, a boolean, an array, an object, a resource, the number token of
  \<open>Fn.tonumber\<close>. A plain string is split. A token is one segment, so that \<open>[1]\<close> is
  \<open>undefined\<close>; a template literal is split at the \<open>-\<close> of its literal text.
\<close>

definition split_second :: "jsval \<Rightarrow> jsval comp" where
  "split_second v =
     (case v of
        Str p \<Rightarrow> ret (at_index (split_on CHR ''-'' p) 1)
      | Ref p a \<Rightarrow> ret Undefined
      | Call g xs \<Rightarrow> if g = ''tonumber'' then throw (TypeError ''split'') else ret Undefined
      | Cat xs \<Rightarrow>
          (let segs = segments [] (pieces (Cat xs))
           in ret (if 1 < length segs then segment_value (segs ! 1) else Undefined))
      | _ \<Rightarrow> throw (TypeError ''split''))"

text \<open>Mutable arrays in the store: \<open>[]\<close>, \<open>push\<close> and a read of the current content.\<close>

definition new_array :: "nat comp" where
  "new_array s = (Inr (length (arrays s)), s\<lparr>arrays := arrays s @ [[]]\<rparr>)"

definition push :: "nat \<Rightarrow> jsval \<Rightarrow> unit comp" where
  "push a v s = (Inr (), s\<lparr>arrays := (arrays s)[a := arrays s ! a @ [v]]\<rparr>)"

definition read_array :: "nat \<Rightarrow> jsval list comp" where
  "read_array a s = (Inr (arrays s ! a), s)"

record SecretRef =
  secret :: string
  version :: string

record CurioStackServiceConfig =
  name :: string
  imageTag :: "string option"
  environment :: "string option"
  public :: "bool option"
  env :: "(string \<times> string) list option"
  websockets :: "bool option"
  envSecrets :: "(string \<times> SecretRef) list option"
  otelCollectorImage :: "string option"
  scaling :: "jsval option"
  curiostack :: jsval
  dependsOn :: "nat option"

record CurioStackService_obj =
  run :: path
  serviceAccount :: path

definition entries :: "(string \<times> 'a) list option \<Rightarrow> (string \<times> 'a) list" where
  "entries r = (case r of None \<Rightarrow> [] | Some ps \<Rightarrow> ps)"

text \<open>The loop over \<open>Object.entries(config.envSecrets ?? {})\<close>; it returns \<open>env\<close>.\<close>

fun envSecrets_loop ::
  "path \<Rightarrow> path \<Rightarrow> nat \<Rightarrow> (string \<times> SecretRef) list \<Rightarrow> jsval list \<Rightarrow> jsval list comp" where
  "envSecrets_loop this sa deps [] env' = ret env'"
| "envSecrets_loop this sa deps ((n, sec) # rest) env' =
     bnd (resource this ''SecretManagerSecretIamMember'' (''secret-accessor-'' @ n)
           [(''secretId'', Str (secret sec)),
            (''role'', Str ''roles/secretmanager.secretAccessor''),
            (''member'', Ref sa ''member'')]) (\<lambda>secretIam.
     bnd (push deps (Res secretIam)) (\<lambda>_.
     envSecrets_loop this sa deps rest
       (env' @ [Obj [(''name'', Str n),
                     (''valueSource'',
                        Obj [(''secretKeyRef'',
                              Obj [(''secret'', Str (secret sec)),
                                   (''version'', Str (version sec))])])]])))"

text \<open>What one round of the loop registers, and what it appends to \<open>env\<close>.\<close>

definition secret_member :: "path \<Rightarrow> string \<times> SecretRef \<Rightarrow> string \<times> node" where
  "secret_member sa e =
     (''secret-accessor-'' @ fst e,
      Resource ''SecretManagerSecretIamMember''
        [(''secretId'', Str (secret (snd e))),
         (''role'', Str ''roles/secretmanager.secretAccessor''),
         (''member'', Ref sa ''member'')])"

definition secret_env :: "string \<times> SecretRef \<Rightarrow> jsval" where
  "secret_env e =
     Obj [(''name'', Str (fst e)),
          (''valueSource'',
             Obj [(''secretKeyRef'',
                   Obj [(''secret'', Str (secret (snd e))),
                        (''version'', Str (version (snd e)))])])]"

definition probe :: "int \<Rightarrow> int \<Rightarrow> obj" where
  "probe period threshold =
     [(''periodSeconds'', Num period),
      (''failureThreshold'', Num threshold)]"

definition CurioStackService_body ::
  "CurioStackServiceConfig \<Rightarrow> path \<Rightarrow> CurioStackService_obj comp" where
  "CurioStackService_body config this =
   bnd (getp (curiostack config) ''dockerRepository'') (\<lambda>repository.
   bnd (getp repository ''location'') (\<lambda>repository_location.
   bnd (getp repository ''project'') (\<lambda>repository_project.
   bnd (getp repository ''name'') (\<lambda>repository_name.
   let imageName = Cat [repository_location, Str ''-docker.pkg.dev/'', repository_project,
                        Str ''/'', repository_name, Str ''/'', Str (name config), Str '':'',
                        Str (case imageTag config of None \<Rightarrow> ''main'' | Some t \<Rightarrow> t)];
       ingress = Str ''INGRESS_TRAFFIC_ALL''
   in
   bnd (resource this ''ServiceAccount'' ''service-account''
         [(''accountId'', Str (''service-'' @ name config))]) (\<lambda>sa.
   bnd (getp (curiostack config) ''project'') (\<lambda>project'.
   bnd (resource this ''ProjectIamMember'' ''service-account-metrics''
         [(''project'', project'),
          (''role'', Str ''roles/monitoring.metricWriter''),
          (''member'', Ref sa ''member'')]) (\<lambda>_.
   bnd (resource this ''ProjectIamMember'' ''service-account-traces''
         [(''project'', project'),
          (''role'', Str ''roles/cloudtrace.agent''),
          (''member'', Ref sa ''member'')]) (\<lambda>_.
   bnd (resource this ''ProjectIamMember'' ''service-account-profiles''
         [(''project'', project'),
          (''role'', Str ''roles/cloudprofiler.agent''),
          (''member'', Ref sa ''member'')]) (\<lambda>_.
   bnd (getp (curiostack config) ''githubEnvironmentIamMember'') (\<lambda>githubMember.
   bnd (resource this ''ServiceAccountIamMember'' ''cloudrun-github''
         [(''serviceAccountId'', Ref sa ''name''),
          (''role'', Str ''roles/iam.serviceAccountUser''),
          (''member'', githubMember)]) (\<lambda>_.
   bnd (case dependsOn config of Some a \<Rightarrow> ret a | None \<Rightarrow> new_array) (\<lambda>deps.
   bnd (getp (curiostack config) ''runService'') (\<lambda>runService'.
   bnd (push deps runService') (\<lambda>_.
   bnd (case environment config of Some e \<Rightarrow> ret (Str e) | None \<Rightarrow> split_second project')
     (\<lambda>config_env.
   let env0 =
         [Obj [(''name'', Str ''CONFIG_ENV''), (''value'', config_env)],
          Obj [(''name'', Str ''GOOGLE_PROJECT''), (''value'', project')],
          Obj [(''name'', Str ''OTEL_METRICS_EXPORTER''), (''value'', Str ''otlp'')],
          Obj [(''name'', Str ''OTEL_TRACES_EXPORTER''), (''value'', Str ''otlp'')],
          Obj [(''name'', Str ''OTEL_SERVICE_NAME''), (''value'', Str (name config))]]
         @ (if truthy_bool (public config)
            then [Obj [(''name'', Str ''OTEL_TRACES_SAMPLER''), (''value'', Str ''always_on'')]]
            else [])
         @ [Obj [(''name'', Str ''LOGGING_JSON''), (''value'', Str ''true'')]]
         @ map (\<lambda>(n, v). Obj [(''name'', Str n), (''value'', Str v)]) (entries (env config))
   in
   bnd (envSecrets_loop this sa deps (entries (envSecrets config)) env0) (\<lambda>env1.
   bnd (getp (curiostack config) ''otelBucket'') (\<lambda>otelBucket.
   bnd (getp otelBucket ''name'') (\<lambda>otelBucket_name.
   bnd (resource this ''StorageBucketIamMember'' ''otel-bucket-reader''
         [(''bucket'', otelBucket_name),
          (''role'', Str ''roles/storage.objectViewer''),
          (''member'', Ref sa ''member'')]) (\<lambda>otelIam.
   bnd (push deps (Res otelIam)) (\<lambda>_.
   let otelImage = (case otelCollectorImage config of
                      None \<Rightarrow> ''otel/opentelemetry-collector-contrib:0.119.0'' | Some i \<Rightarrow> i)
   in
   bnd (getp (curiostack config) ''location'') (\<lambda>location'.
   bnd (read_array deps) (\<lambda>deps_now.
   bnd (resource this ''GoogleCloudRunV2Service'' ''service''
         [(''name'', Str (name config)),
          (''location'', location'),
          (''customAudiences'', Arr [Str (name config)]),
          (''ingress'', ingress),
          (''template'',
             Obj [(''executionEnvironment'', Str ''EXECUTION_ENVIRONMENT_GEN2''),
                  (''serviceAccount'', Ref sa ''email''),
                  (''timeout'',
                     if truthy_bool (websockets config) then Str ''3600s'' else Undefined),
                  (''scaling'',
                     case scaling config of
                       None \<Rightarrow> Obj [(''minInstanceCount'', Num 0), (''maxInstanceCount'', Num 1)]
                     | Some sc \<Rightarrow> sc),
                  (''containers'',
                     Arr [Obj [(''image'', imageName),
                               (''name'', Str ''app''),
                               (''resources'',
                                  Obj [(''cpuIdle'', Bool True), (''startupCpuBoost'', Bool True)]),
                               (''startupProbe'',
                                  Obj (probe 1 10
                                       @ [(''initialDelaySeconds'', Num 1),
                                          (''httpGet'',
                                             Obj [(''path'', Str ''/internal/health''),
                                                  (''port'', Num 8080)])])),
                               (''livenessProbe'',
                                  Obj (probe 5 3
                                       @ [(''httpGet'',
                                             Obj [(''path'', Str ''/internal/health''),
                                                  (''port'', Num 8080)])])),
                               (''env'', Arr env1),
                               (''ports'',
                                  Obj [(''name'',
                                          if \<not> truthy_bool (websockets config)
                                          then Str ''h2c'' else Str ''http1''),
                                       (''containerPort'', Num 8080)])],
                          Obj [(''image'', Str otelImage),
                               (''name'', Str ''otel''),
                               (''args'', Arr [Str ''--config'', Str ''/otel/otel-config-default.yaml'']),
                               (''resources'',
                                  Obj [(''cpuIdle'', Bool True),
                                       (''startupCpuBoost'', Bool True),
                                       (''limits'',
                                          Obj [(''cpu'', Str ''1000m''), (''memory'', Str ''256Mi'')])]),
                               (''volumeMounts'',
                                  Arr [Obj [(''name'', Str ''otel''), (''mountPath'', Str ''/otel'')]])]]),
                  (''volumes'',
                     Arr [Obj [(''name'', Str ''otel''),
                               (''gcs'', Obj [(''bucket'', otelBucket_name),
                                             (''readOnly'', Bool True)])]])]),
          (''dependsOn'', Arr deps_now),
          (''lifecycle'',
             Obj [(''ignoreChanges'',
                     if \<not> falsy_str (imageTag config) then Undefined
                     else Arr [Str ''client'', Str ''client_version'',
                               Str ''template[0].revision'',
                               Str ''template[0].containers[0].image''])])]) (\<lambda>run'.
   bnd (if truthy_bool (public config)
        then bnd (resource this ''CloudRunServiceIamMember'' ''publicaccess''
                   [(''location'', Ref run' ''location''),
                    (''service'', Ref run' ''name''),
                    (''role'', Str ''roles/run.invoker''),
                    (''member'', Str ''allUsers'')]) (\<lambda>_. ret ())
        else ret ()) (\<lambda>_.
   ret \<lparr>run = run', serviceAccount = sa\<rparr>))))))))))))))))))))))))"

definition CurioStackService ::
  "CurioStackServiceConfig \<Rightarrow> path \<Rightarrow> CurioStackService_obj comp" where
  "CurioStackService config scope =
     construct scope ''CurioStackService'' (name config) (CurioStackService_body config)"

section \<open>curiostack/hosting.ts\<close>

text \<open>\<open>s.replace(" ", "-")\<close> replaces the first occurrence only.\<close>

fun replace_first :: "char \<Rightarrow> char \<Rightarrow> string \<Rightarrow> string" where
  "replace_first a b [] = []"
| "replace_first a b (x # xs) = (if x = a then b # xs else x # replace_first a b xs)"

text \<open>
  \<open>toLowerCase\<close>, a \<open>char\<close> being a code unit below 256: JavaScript lowers the letters
  A to Z and, in the upper half, the capital letters from U+00C0 to U+00DE other than
  the multiplication sign U+00D7, each to the code unit 32 above it, and leaves every
  other code unit below 256 as it is.
\<close>

definition to_lower :: "char \<Rightarrow> char" where
  "to_lower c =
     (let n = (of_char c :: nat)
      in if (65 \<le> n \<and> n \<le> 90) \<or> (192 \<le> n \<and> n \<le> 222 \<and> n \<noteq> 215)
         then char_of (n + 32) else c)"

record CurioStackHostingConfig =
  displayName :: string
  curiostack :: jsval
  dependsOn :: "nat option"

definition CurioStackHosting_body :: "CurioStackHostingConfig \<Rightarrow> path \<Rightarrow> unit comp" where
  "CurioStackHosting_body config this =
   bnd (getp (curiostack config) ''config'') (\<lambda>cs_config.
   bnd (getp cs_config ''googleBeta'') (\<lambda>googleBeta'.
   bnd (getp cs_config ''project'') (\<lambda>project'.
   bnd (resource this ''GoogleFirebaseWebApp'' ''web-app''
         [(''displayName'', Str (displayName config)),
          (''provider'', googleBeta')]) (\<lambda>webApp.
   bnd (resource this ''GoogleFirebaseHostingSite'' ''hosting-site''
         [(''appId'', Ref webApp ''appId''),
          (''siteId'', project'),
          (''provider'', googleBeta')]) (\<lambda>site.
   bnd (getp (curiostack config) ''config'') (\<lambda>cs_config'.
   bnd (getp cs_config' ''domain'') (\<lambda>domain'.
   bnd (resource this ''GoogleFirebaseHostingCustomDomain'' ''custom-domain''
         [(''siteId'', Ref site ''siteId''),
          (''customDomain'', domain'),
          (''provider'', googleBeta')]) (\<lambda>customDomain.
   bnd (resource this ''TerraformOutput'' ''custom-domain-dns-updates''
         [(''value'', Ref customDomain ''requiredDnsUpdates'')]) (\<lambda>_.
   bnd (resource this ''ProjectIamCustomRole'' ''cloudrun-deployer''
         [(''roleId'', Str ''cloudRunServiceViewer''),
          (''title'', Str ''Cloud Run Service Viewer''),
          (''permissions'', Arr [Str ''run.services.get''])]) (\<lambda>runViewerRole.
   bnd (resource this ''ServiceAccount'' ''firebase-deployer''
         [(''accountId'', Str ''firebase-deployer'')]) (\<lambda>firebaseDeployer.
   bnd (resource this ''ProjectIamMember'' ''firebase-deployer-hosting-admin''
         [(''project'', project'),
          (''role'', Str ''roles/firebasehosting.admin''),
          (''member'', Ref firebaseDeployer ''member'')]) (\<lambda>_.
   bnd (resource this ''ProjectIamMember'' ''firebase-deployer-cloudrun-viewer''
         [(''project'', project'),
          (''role'', Ref runViewerRole ''name''),
          (''member'', Ref firebaseDeployer ''member'')]) (\<lambda>_.
   bnd (getp (curiostack config) ''githubEnvironmentIamMember'') (\<lambda>githubMember.
   bnd (resource this ''ServiceAccountIamMember'' ''github-firebase-deployer''
         [(''serviceAccountId'', Ref firebaseDeployer ''name''),
          (''role'', Str ''roles/iam.serviceAccountTokenCreator''),
          (''member'', githubMember)]) (\<lambda>_.
   ret ())))))))))))))))"

text \<open>\<open>config.displayName.replace(" ", "-").toLowerCase()\<close>\<close>

definition hosting_id :: "CurioStackHostingConfig \<Rightarrow> string" where
  "hosting_id config = map to_lower (replace_first CHR '' '' CHR ''-'' (displayName config))"

definition CurioStackHosting :: "CurioStackHostingConfig \<Rightarrow> path \<Rightarrow> unit comp" where
  "CurioStackHosting config scope =
     construct scope ''CurioStackHosting'' (hosting_id config) (CurioStackHosting_body config)"

section \<open>Declarations and the dependency graph\<close>

text \<open>The resource declarations of a tree, each with its path, in registration order.\<close>

fun flat :: "path \<Rightarrow> node \<Rightarrow> (path \<times> string \<times> obj) list"
and flats :: "path \<Rightarrow> (string \<times> node) list \<Rightarrow> (path \<times> string \<times> obj) list" where
  "flat p (Resource k c) = [(p, k, c)]"
| "flat p (Scope c ch) = flats p ch"
| "flats p [] = []"
| "flats p ((i, n) # r) = flat (p @ [i]) n @ flats p r"

text \<open>The node registered at a path below a list of children.\<close>

fun node_at :: "(string \<times> node) list \<Rightarrow> path \<Rightarrow> node option" where
  "node_at ch [] = None"
| "node_at ch [i] = map_of ch i"
| "node_at ch (i # p) = (case map_of ch i of Some (Scope c ch') \<Rightarrow> node_at ch' p | _ \<Rightarrow> None)"

text \<open>
  Modelled from the spec: the Dependency Graph Builder (sections 3 and 4.4; the graph is
  built by the library, not by code of the repository). A declaration has an implicit
  edge from every producer a deferred reference in its config points to, and an explicit
  edge from every entry of its \<open>dependsOn\<close>; the edge set is deduplicated.
\<close>

fun refs :: "jsval \<Rightarrow> path list"
and refs_list :: "jsval list \<Rightarrow> path list"
and refs_fields :: "(string \<times> jsval) list \<Rightarrow> path list" where
  "refs (Ref p a) = [p]"
| "refs (Cat xs) = refs_list xs"
| "refs (Arr xs) = refs_list xs"
| "refs (Obj ps) = refs_fields ps"
| "refs (Call g xs) = refs_list xs"
| "refs Undefined = []"
| "refs (Str s) = []"
| "refs (Num n) = []"
| "refs (Bool b) = []"
| "refs (Res p) = []"
| "refs_list [] = []"
| "refs_list (x # xs) = refs x @ refs_list xs"
| "refs_fields [] = []"
| "refs_fields ((k, v) # ps) = refs v @ refs_fields ps"

definition explicit_deps :: "obj \<Rightarrow> path list" where
  "explicit_deps c =
     (case map_of c ''dependsOn'' of
        Some (Arr xs) \<Rightarrow> concat (map (\<lambda>x. case x of Res p \<Rightarrow> [p] | _ \<Rightarrow> []) xs)
      | _ \<Rightarrow> [])"

definition producers :: "obj \<Rightarrow> path list" where
  "producers c = refs_fields c @ explicit_deps c"

definition edges :: "(path \<times> string \<times> obj) list \<Rightarrow> (path \<times> path) list" where
  "edges ds = remdups (concat (map (\<lambda>(p, k, c). map (\<lambda>q. (q, p)) (producers c)) ds))"

text \<open>
  Modelled from the spec: a topological order of the finalized graph lists every
  declaration once and has, for every edge, the producer strictly before the consumer.
\<close>

fun precedes :: "'a \<Rightarrow> 'a \<Rightarrow> 'a list \<Rightarrow> bool" where
  "precedes a b [] = False"
| "precedes a b (x # xs) = (if x = a then b \<in> set xs else precedes a b xs)"

definition topological_order :: "(path \<times> string \<times> obj) list \<Rightarrow> path list \<Rightarrow> bool" where
  "topological_order ds order =
     (distinct order \<and> set order = set (map fst ds)
      \<and> list_all (\<lambda>(a, b). precedes a b order) (edges ds))"

text \<open>The children of a scope by what they are.\<close>

fun scopes_of_class :: "string \<Rightarrow> (string \<times> node) list \<Rightarrow> string list" where
  "scopes_of_class c [] = []"
| "scopes_of_class c ((i, Scope c' ch) # r) =
     (if c' = c then i # scopes_of_class c r else scopes_of_class c r)"
| "scopes_of_class c ((i, Resource k cfg) # r) = scopes_of_class c r"

fun resources_of_kind :: "string \<Rightarrow> (string \<times> node) list \<Rightarrow> (string \<times> obj) list" where
  "resources_of_kind k [] = []"
| "resources_of_kind k ((i, Resource k' cfg) # r) =
     (if k' = k then (i, cfg) # resources_of_kind k r else resources_of_kind k r)"
| "resources_of_kind k ((i, Scope c ch) # r) = resources_of_kind k r"

text \<open>The children of a scope by id and kind, in registration order.\<close>

fun kind_of :: "node \<Rightarrow> string" where
  "kind_of (Resource k c) = k"
| "kind_of (Scope c ch) = c"

definition outline :: "(string \<times> node) list \<Rightarrow> (string \<times> string) list" where
  "outline ch = map (\<lambda>(i, n). (i, kind_of n)) ch"





text \<open>The spec's override-wins rule, as a lookup.\<close>

definition override_wins :: "obj \<Rightarrow> obj option \<Rightarrow> string \<Rightarrow> jsval option" where
  "override_wins defaults over k =
     (case over of
        None \<Rightarrow> map_of defaults k
      | Some ps \<Rightarrow> (case map_of ps k of Some v \<Rightarrow> Some v | None \<Rightarrow> map_of defaults k))"

text \<open>A JavaScript object has each key once.\<close>

definition distinct_keys :: "obj option \<Rightarrow> bool" where
  "distinct_keys over = (case over of None \<Rightarrow> True | Some ps \<Rightarrow> distinct (map fst ps))"

section \<open>Example inputs\<close>

definition empty_world :: world where
  "empty_world = \<lparr>kids = [], arrays = []\<rparr>"

text \<open>What a constructor's body registers under a fresh \<open>this\<close>, and what it returns.\<close>

definition GcpProject_children :: "GcpProjectConfig \<Rightarrow> path \<Rightarrow> (string \<times> node) list" where
  "GcpProject_children config this = kids (snd (GcpProject_body config this empty_world))"

definition GitHubRepository_children ::
  "GitHubRepositoryConfig \<Rightarrow> path \<Rightarrow> (string \<times> node) list" where
  "GitHubRepository_children config this =
     kids (snd (GitHubRepository_body config this empty_world))"

definition GcpProject_result :: "GcpProjectConfig \<Rightarrow> path \<Rightarrow> error + GcpProject_obj" where
  "GcpProject_result config this = fst (GcpProject_body config this empty_world)"

definition GitHubRepository_result ::
  "GitHubRepositoryConfig \<Rightarrow> path \<Rightarrow> error + GitHubRepository_obj" where
  "GitHubRepository_result config this = fst (GitHubRepository_body config this empty_world)"

definition Bootstrap_result :: "string \<Rightarrow> BootstrapConfig \<Rightarrow> path \<Rightarrow> error + Bootstrap_obj" where
  "Bootstrap_result dirname config this = fst (Bootstrap_body dirname config this empty_world)"

definition Bootstrap_children :: "string \<Rightarrow> BootstrapConfig \<Rightarrow> path \<Rightarrow> (string \<times> node) list" where
  "Bootstrap_children dirname config this =
     kids (snd (Bootstrap_body dirname config this empty_world))"



definition acme_curiostack :: CurioStackConfig where
  "acme_curiostack =
     \<lparr>project = ''acme'', location = ''us-central1'', domain = ''acme.example'',
      githubRepo = ''acme/app'', githubIdentityPoolId = None, githubEnvironment = None,
      terraformViewerServiceAccountId = None, googleBeta = Res [''google-beta'']\<rparr>"

definition my_project_dev :: CurioStackConfig where
  "my_project_dev = acme_curiostack\<lparr>CurioStackConfig.project := ''my-project-dev''\<rparr>"

definition acme_dev_curiostack :: CurioStackConfig where
  "acme_dev_curiostack = acme_curiostack\<lparr>CurioStackConfig.project := ''acme-dev''\<rparr>"

text \<open>The instance the CurioStack constructor returns for \<open>acme_dev_curiostack\<close>.\<close>

definition acme_dev_stack :: jsval where
  "acme_dev_stack =
     (case fst (CurioStack acme_dev_curiostack [] empty_world) of
        Inr stack \<Rightarrow> stack | Inl e \<Rightarrow> Undefined)"

definition acme_site :: CurioStackHostingConfig where
  "acme_site =
     \<lparr>displayName = ''Acme Site'', CurioStackHostingConfig.curiostack = acme_dev_stack,
      CurioStackHostingConfig.dependsOn = None\<rparr>"

text \<open>
  A service on the instance above, with one secret, and a state in which the caller owns
  one array with one dependency in it.
\<close>

definition api_service :: CurioStackServiceConfig where
  "api_service =
     \<lparr>CurioStackServiceConfig.name = ''api'', imageTag = None, environment = None,
      public = Some True, env = Some [(''LOG_LEVEL'', ''info'')], websockets = None,
      envSecrets = Some [(''DB_PASSWORD'', \<lparr>secret = ''db-password'', version = ''1''\<rparr>)],
      otelCollectorImage = None, scaling = None,
      CurioStackServiceConfig.curiostack = acme_dev_stack,
      CurioStackServiceConfig.dependsOn = Some 0\<rparr>"

definition caller_world :: world where
  "caller_world = \<lparr>kids = [], arrays = [[Res [''caller-dependency'']]]\<rparr>"

text \<open>A repository whose caller overrides one default flag and the \<open>rules\<close> of main.\<close>

definition acme_repository :: GitHubRepositoryConfig where
  "acme_repository =
     \<lparr>GitHubRepositoryConfig.name = ''acme'', adminTeam = None,
      repositoryConfig = Some [(''allowMergeCommit'', Bool True), (''visibility'', Str ''private'')],
      mainRulesetConfig = Some [(''rules'', Obj [(''deletion'', Bool False)])],
      releaseRulesetConfig = None, devEnvironmentConfig = None,
      devViewerEnvironmentConfig = None, prodEnvironmentConfig = None,
      prodViewerEnvironmentConfig = None\<rparr>"

definition acme_bootstrap :: BootstrapConfig where
  "acme_bootstrap =
     \<lparr>BootstrapConfig.name = ''acme'', organizationId = ''123456'', billingAccountId = ''ABCDEF'',
      githubOrg = ''acme-org'', BootstrapConfig.domain = Some ''acme.example'',
      appRepositoryConfig = None, infraRepositoryConfig = None, disableGitHubWorkflows = None,
      BootstrapConfig.googleBeta = Res [''google-beta'']\<rparr>"

text \<open>A project named like the logical id of the Team.\<close>

definition github_admins_bootstrap :: BootstrapConfig where
  "github_admins_bootstrap = acme_bootstrap\<lparr>BootstrapConfig.name := ''github-admins''\<rparr>"


text \<open>What a computation registered under the scope: the children it added.\<close>

definition added :: "world \<Rightarrow> world \<Rightarrow> (string \<times> node) list" where
  "added s s' = drop (length (kids s)) (kids s')"


definition acme_dev_project :: GcpProjectConfig where
  "acme_dev_project =
     \<lparr>projectId = ''acme-dev'', GcpProjectConfig.displayName = None,
      GcpProjectConfig.organizationId = ''123456'',
      GcpProjectConfig.billingAccountId = ''ABCDEF'',
      githubInfraRepo = ''acme-org/acme-infra'',
      GcpProjectConfig.githubEnvironment = ''dev'', terraformStateLocation = None,
      GcpProjectConfig.googleBeta = Res [''google-beta''],
      GcpProjectConfig.dependsOn = None\<rparr>"

text \<open>The declarations registered below a scope, given the state of the scope.\<close>

definition declarations :: "path \<Rightarrow> world \<Rightarrow> (path \<times> string \<times> obj) list" where
  "declarations scope s = flats scope (kids s)"

section \<open>The composition combinators\<close>

lemmas comp_defs = bnd_def resource_def child_ids_def throw_def ret_def

lemma construct_dup:
  "i \<in> child_ids s \<Longrightarrow>
   construct scope c i body s = (Inl (DuplicateIdentifierError (scope @ [i])), s)"
  by (simp add: construct_def)

lemma construct_fresh:
  "i \<notin> child_ids s \<Longrightarrow>
   construct scope c i body s =
     (fst (body (scope @ [i]) (s\<lparr>kids := []\<rparr>)),
      (snd (body (scope @ [i]) (s\<lparr>kids := []\<rparr>)))
        \<lparr>kids := kids s @ [(i, Scope c (kids (snd (body (scope @ [i]) (s\<lparr>kids := []\<rparr>)))))]\<rparr>)"
  by (simp add: construct_def split: prod.splits)

lemma kids_nil_upd: "kids s = [] \<Longrightarrow> s\<lparr>kids := []\<rparr> = s"
  by (cases s) simp

subsection \<open>Evaluating a body without walking through its configs\<close>

lemma bnd_weak_cong: "s = s' \<Longrightarrow> bnd m f s = bnd m f s'"
  by simp

lemma resource_weak_cong: "s = s' \<Longrightarrow> resource this k i cfg s = resource this k i cfg s'"
  by simp

lemma Resource_cong: "Resource k c = Resource k c"
  by simp

subsection \<open>Computations that leave the store of arrays alone\<close>

lemma world_eqI: "kids (a::world) = kids b \<Longrightarrow> arrays a = arrays b \<Longrightarrow> a = b"
  by simp

lemma arrays_nil_kids: "(s\<lparr>arrays := []\<rparr>)\<lparr>kids := x\<rparr> = (s\<lparr>kids := x\<rparr>)\<lparr>arrays := []\<rparr>"
  by simp

lemma tree_local_ret: "tree_local (ret x)"
  by (simp add: tree_local_def ret_def)

lemma tree_local_throw: "tree_local (throw e)"
  by (simp add: tree_local_def throw_def)

lemma tree_local_resource: "tree_local (resource this k i cfg)"
  by (simp add: tree_local_def resource_def child_ids_def)

lemma tree_local_bnd:
  assumes m: "tree_local m" and f: "\<And>x. tree_local (f x)"
  shows "tree_local (bnd m f)"
  unfolding tree_local_def
proof
  fix s :: world
  obtain r s1 where a: "m s = (r, s1)" by (cases "m s")
  obtain r' s1' where b: "m (s\<lparr>arrays := []\<rparr>) = (r', s1')"
    by (cases "m (s\<lparr>arrays := []\<rparr>)")
  from m a b have rr: "r' = r" and kk: "kids s1' = kids s1" and aa: "arrays s1 = arrays s"
    by (auto simp add: tree_local_def dest: spec[of _ s])
  from m b have "arrays s1' = arrays (s\<lparr>arrays := []\<rparr>)"
    by (auto simp add: tree_local_def dest: spec[of _ "s\<lparr>arrays := []\<rparr>"])
  with kk have s1': "s1' = s1\<lparr>arrays := []\<rparr>" by (intro world_eqI) simp_all
  show "fst (bnd m f s) = fst (bnd m f (s\<lparr>arrays := []\<rparr>)) \<and>
        kids (snd (bnd m f s)) = kids (snd (bnd m f (s\<lparr>arrays := []\<rparr>))) \<and>
        arrays (snd (bnd m f s)) = arrays s"
  proof (cases r)
    case (Inl e)
    with a b rr s1' aa show ?thesis by (simp add: bnd_def)
  next
    case (Inr x)
    from f[of x] have "fst (f x s1) = fst (f x (s1\<lparr>arrays := []\<rparr>)) \<and>
        kids (snd (f x s1)) = kids (snd (f x (s1\<lparr>arrays := []\<rparr>))) \<and>
        arrays (snd (f x s1)) = arrays s1"
      by (simp add: tree_local_def)
    with Inr a b rr s1' aa show ?thesis by (simp add: bnd_def)
  qed
qed

lemma tree_local_construct:
  assumes f: "\<And>p. tree_local (body p)"
  shows "tree_local (construct scope c i body)"
  unfolding tree_local_def
proof
  fix s :: world
  from f[of "scope @ [i]"] have
    "fst (body (scope @ [i]) (s\<lparr>kids := []\<rparr>))
       = fst (body (scope @ [i]) ((s\<lparr>kids := []\<rparr>)\<lparr>arrays := []\<rparr>)) \<and>
     kids (snd (body (scope @ [i]) (s\<lparr>kids := []\<rparr>)))
       = kids (snd (body (scope @ [i]) ((s\<lparr>kids := []\<rparr>)\<lparr>arrays := []\<rparr>))) \<and>
     arrays (snd (body (scope @ [i]) (s\<lparr>kids := []\<rparr>))) = arrays (s\<lparr>kids := []\<rparr>)"
    unfolding tree_local_def by blast
  moreover from f[of "scope @ [i]"] have
    "arrays (snd (body (scope @ [i]) ((s\<lparr>kids := []\<rparr>)\<lparr>arrays := []\<rparr>))) = []"
    unfolding tree_local_def
    by (metis world.select_convs(2) world.surjective world.update_convs(2))
  ultimately show
    "fst (construct scope c i body s) = fst (construct scope c i body (s\<lparr>arrays := []\<rparr>)) \<and>
     kids (snd (construct scope c i body s))
       = kids (snd (construct scope c i body (s\<lparr>arrays := []\<rparr>))) \<and>
     arrays (snd (construct scope c i body s)) = arrays s"
    by (auto simp add: construct_def child_ids_def arrays_nil_kids split: prod.splits)
qed

lemma tree_local_if: "tree_local m \<Longrightarrow> tree_local n \<Longrightarrow> tree_local (if b then m else n)"
  by simp

lemma tree_local_run:
  assumes "tree_local m" "kids s = []"
  shows "m s = (fst (m empty_world), s\<lparr>kids := kids (snd (m empty_world))\<rparr>)"
proof -
  have e: "s\<lparr>arrays := []\<rparr> = empty_world"
    using assms(2) by (intro world_eqI) (simp_all add: empty_world_def)
  from assms(1) have "fst (m s) = fst (m empty_world)
      \<and> kids (snd (m s)) = kids (snd (m empty_world)) \<and> arrays (snd (m s)) = arrays s"
    unfolding tree_local_def using e by metis
  then show ?thesis by (cases "m s") (auto intro: world_eqI)
qed

section \<open>CurioStack: the environment check\<close>

lemma Apps_fail:
  "falsy_str (githubEnvironment config) \<and> \<not> includes_chr (project config) CHR ''-'' \<Longrightarrow>
   kids s = [] \<Longrightarrow>
   fst (Apps_body config this s) = Inl (ConfigurationError missing_env_message)"
  by (simp add: Apps_body_def comp_defs)

lemma Apps_fail_kids:
  "falsy_str (githubEnvironment config) \<and> \<not> includes_chr (project config) CHR ''-'' \<Longrightarrow>
   kids s = [] \<Longrightarrow>
   map fst (kids (snd (Apps_body config this s))) =
     [''service-artifactregistry'', ''service-run'', ''service-cloudtrace'',
      ''service-monitoring'', ''cloudrun-deployer'', ''github-id-pool'']"
  by (simp add: Apps_body_def comp_defs)

lemma Apps_arrays: "kids s = [] \<Longrightarrow> arrays (snd (Apps_body config this s)) = arrays s"
  by (simp add: Apps_body_def comp_defs Let_def)

lemma Apps_ok:
  "\<not> (falsy_str (githubEnvironment config) \<and> \<not> includes_chr (project config) CHR ''-'') \<Longrightarrow>
   kids s = [] \<Longrightarrow>
   \<exists>a. fst (Apps_body config this s) = Inr a"
  by (simp add: Apps_body_def comp_defs Let_def)

lemma Identity_ok: "kids s = [] \<Longrightarrow> fst (Identity_body config this s) = Inr ()"
  by (simp add: Identity_body_def comp_defs)

lemma CurioStack_body_fail:
  "falsy_str (githubEnvironment config) \<and> \<not> includes_chr (project config) CHR ''-'' \<Longrightarrow>
   kids s = [] \<Longrightarrow>
   CurioStack_body config this s =
     (Inl (ConfigurationError missing_env_message),
      s\<lparr>kids := [(''apps'', Scope ''Apps'' (kids (snd (Apps_body config (this @ [''apps'']) s))))]\<rparr>)"
  using Apps_fail[of config s "this @ [''apps'']"] Apps_arrays[of s config "this @ [''apps'']"]
  by (simp add: CurioStack_body_def bnd_def construct_fresh child_ids_def kids_nil_upd
      world.equality split: prod.splits sum.splits)

lemma CurioStack_body_ok:
  "\<not> (falsy_str (githubEnvironment config) \<and> \<not> includes_chr (project config) CHR ''-'') \<Longrightarrow>
   kids s = [] \<Longrightarrow>
   \<exists>a. fst (CurioStack_body config this s) = Inr a"
  using Apps_ok[of config s "this @ [''apps'']"]
  by (auto simp add: CurioStack_body_def bnd_def construct_fresh child_ids_def ret_def
      Identity_ok kids_nil_upd split: prod.splits sum.splits)

lemma CurioStack_error_cases:
  "(fst (CurioStack config scope s) = Inl (ConfigurationError m)) =
   (m = missing_env_message \<and> ''curiostack'' \<notin> child_ids s \<and>
    falsy_str (githubEnvironment config) \<and> \<not> includes_chr (project config) CHR ''-'')"
proof (cases "''curiostack'' \<in> child_ids s")
  case True
  then show ?thesis by (simp add: CurioStack_def construct_dup)
next
  case fresh: False
  show ?thesis
  proof (cases "falsy_str (githubEnvironment config) \<and> \<not> includes_chr (project config) CHR ''-''")
    case True
    with fresh show ?thesis
      by (auto simp add: CurioStack_def construct_fresh CurioStack_body_fail)
  next
    case False
    from CurioStack_body_ok[OF False, of "s\<lparr>kids := []\<rparr>" "scope @ [''curiostack'']"]
    obtain a where "fst (CurioStack_body config (scope @ [''curiostack'']) (s\<lparr>kids := []\<rparr>)) = Inr a"
      by auto
    with fresh False show ?thesis by (simp add: CurioStack_def construct_fresh)
  qed
qed

text \<open>
  C1 (as amended). Constructing a CurioStack raises the ConfigurationError that cites the
  missing environment exactly when the scope has no child named \<open>curiostack\<close> yet, the
  caller's githubEnvironment is absent or the empty string, and the project contains no
  \<open>-\<close>. In every other case no ConfigurationError is raised at all.
\<close>

theorem C1_configuration_error_iff:
  "(fst (CurioStack config scope s) = Inl (ConfigurationError missing_env_message)) =
     (''curiostack'' \<notin> child_ids s \<and> falsy_str (githubEnvironment config)
      \<and> \<not> includes_chr (project config) CHR ''-'')
   \<and> (\<exists>m. fst (CurioStack config scope s) = Inl (ConfigurationError m)) =
     (''curiostack'' \<notin> child_ids s \<and> falsy_str (githubEnvironment config)
      \<and> \<not> includes_chr (project config) CHR ''-'')"
  by (simp add: CurioStack_error_cases)

text \<open>
  C1 as stated fails: a caller who supplies \<open>githubEnvironment: ""\<close> with the project
  \<open>acme\<close> has supplied the field, and the constructor still raises the error, because the
  check is \<open>!config.githubEnvironment\<close>.
\<close>

theorem C1_empty_environment_counterexample:
  "githubEnvironment (acme_curiostack\<lparr>githubEnvironment := Some ''''\<rparr>) \<noteq> None
   \<and> fst (CurioStack (acme_curiostack\<lparr>githubEnvironment := Some ''''\<rparr>) [] empty_world)
       = Inl (ConfigurationError missing_env_message)"
  by (simp add: CurioStack_error_cases acme_curiostack_def empty_world_def child_ids_def
      falsy_str_def includes_chr_def)

text \<open>
  C5 (as amended). When composing a CurioStack fails with the ConfigurationError,
  composition stops at the check: the scope keeps its earlier children and gains the
  \<open>curiostack\<close> construct, which holds the \<open>apps\<close> construct only, which holds exactly
  the six declarations made before the check (four ProjectServices, the cloud-run
  deployer role, the identity-pool lookup). Nothing declared after the check
  (docker-registry, the IAM members, ghcr-repo, the Identity construct) is registered.
\<close>

theorem C5_failure_keeps_declarations_before_check:
  assumes "fst (CurioStack config scope s) = Inl (ConfigurationError m)"
  shows "\<exists>ch. snd (CurioStack config scope s) =
               s\<lparr>kids := kids s @ [(''curiostack'',
                                     Scope ''CurioStack'' [(''apps'', Scope ''Apps'' ch)])]\<rparr>
            \<and> map fst ch = [''service-artifactregistry'', ''service-run'',
                            ''service-cloudtrace'', ''service-monitoring'',
                            ''cloudrun-deployer'', ''github-id-pool'']"
proof -
  from assms have c: "''curiostack'' \<notin> child_ids s \<and> (falsy_str (githubEnvironment config)
      \<and> \<not> includes_chr (project config) CHR ''-'')"
    by (simp add: CurioStack_error_cases)
  then show ?thesis
    by (intro exI[of _ "kids (snd (Apps_body config (scope @ [''curiostack'', ''apps''])
                                   (s\<lparr>kids := []\<rparr>)))"])
       (simp add: CurioStack_def construct_fresh CurioStack_body_fail Apps_fail_kids
          world.equality)
qed

theorem C5_failure_witness:
  "\<exists>ch. snd (CurioStack acme_curiostack [] empty_world) =
          empty_world\<lparr>kids := kids empty_world
             @ [(''curiostack'', Scope ''CurioStack'' [(''apps'', Scope ''Apps'' ch)])]\<rparr>
       \<and> map fst ch = [''service-artifactregistry'', ''service-run'',
                       ''service-cloudtrace'', ''service-monitoring'',
                       ''cloudrun-deployer'', ''github-id-pool'']"
proof -
  have "fst (CurioStack acme_curiostack [] empty_world)
          = Inl (ConfigurationError missing_env_message)"
    by (simp add: CurioStack_error_cases acme_curiostack_def empty_world_def child_ids_def
        falsy_str_def includes_chr_def)
  from C5_failure_keeps_declarations_before_check[OF this] show ?thesis .
qed

text \<open>
  C5 as stated fails: composing a CurioStack for the project \<open>acme\<close> with no
  githubEnvironment raises the error, and six declarations of that call are registered
  in the tree afterwards.
\<close>

theorem C5_partial_registration_counterexample:
  "fst (CurioStack acme_curiostack [] empty_world) = Inl (ConfigurationError missing_env_message)
   \<and> map fst (flats [] (kids (snd (CurioStack acme_curiostack [] empty_world)))) =
       [[''curiostack'', ''apps'', ''service-artifactregistry''],
        [''curiostack'', ''apps'', ''service-run''],
        [''curiostack'', ''apps'', ''service-cloudtrace''],
        [''curiostack'', ''apps'', ''service-monitoring''],
        [''curiostack'', ''apps'', ''cloudrun-deployer''],
        [''curiostack'', ''apps'', ''github-id-pool'']]"
  by (simp add: CurioStack_def CurioStack_body_def construct_def Apps_body_def comp_defs
      acme_curiostack_def empty_world_def falsy_str_def includes_chr_def)

section \<open>The dependency graph\<close>

lemma flats_append: "flats p (a @ b) = flats p a @ flats p b"
  by (induction a) auto

lemma flats_lookup: "map_of ch i = Some (Resource k c) \<Longrightarrow> (p @ [i], k, c) \<in> set (flats p ch)"
  by (induction ch) (auto split: if_splits)

lemma edges_mem:
  "(p, k, c) \<in> set ds \<Longrightarrow> q \<in> set (producers c) \<Longrightarrow> (q, p) \<in> set (edges ds)"
  by (force simp add: edges_def)

lemma topological_order_edge:
  "topological_order ds order \<Longrightarrow> (a, b) \<in> set (edges ds) \<Longrightarrow> precedes a b order"
  by (auto simp add: topological_order_def list_all_iff)

section \<open>GcpProject\<close>

lemma tree_local_GcpProject_body: "tree_local (GcpProject_body config this)"
  unfolding GcpProject_body_def Let_def
  by (intro tree_local_bnd tree_local_resource tree_local_ret)

lemma GcpProject_result:
  "GcpProject_result config this =
   Inr \<lparr>GcpProject_obj.project = this @ [''this''],
        tfstateBucketName = projectId config @ ''-tfstate'',
        dnsService = this @ [''dns''],
        githubIdentityPool = this @ [''github-id-pool''],
        terraformAdminServiceAccount = this @ [''terraform-admin''],
        terraformViewerServiceAccount = this @ [''terraform-viewer''],
        terraformKeyring = this @ [''terraform-keyring''],
        terraformSecretsKey = this @ [''terraform-key'']\<rparr>"
  by (simp add: GcpProject_result_def GcpProject_body_def comp_defs Let_def empty_world_def
       cong: bnd_weak_cong resource_weak_cong Resource_cong)

lemma GcpProject_run:
  "projectId config \<notin> child_ids s \<Longrightarrow>
   GcpProject config scope s =
     (GcpProject_result config (scope @ [projectId config]),
      s\<lparr>kids := kids s @ [(projectId config,
                            Scope ''GcpProject''
                              (GcpProject_children config (scope @ [projectId config])))]\<rparr>)"
  using tree_local_run[OF tree_local_GcpProject_body, of "s\<lparr>kids := []\<rparr>" config
      "scope @ [projectId config]"]
  by (simp add: GcpProject_def construct_fresh GcpProject_result_def GcpProject_children_def)

lemma GcpProject_tfstate:
  "map_of (GcpProject_children config this) ''tfstate'' =
   Some (Resource ''StorageBucket''
         [(''project'', Ref (this @ [''this'']) ''projectId''),
          (''name'', Cat [Ref (this @ [''this'']) ''projectId'', Str ''-tfstate'']),
          (''location'', Str (case terraformStateLocation config of None \<Rightarrow> ''US'' | Some l \<Rightarrow> l)),
          (''storageClass'', Str ''STANDARD''),
          (''versioning'', Obj [(''enabled'', Bool True)])])"
  by (simp add: GcpProject_children_def GcpProject_body_def comp_defs Let_def empty_world_def
       cong: bnd_weak_cong resource_weak_cong Resource_cong)

lemma GcpProject_github_id_pool:
  "map_of (GcpProject_children config this) ''github-id-pool'' =
   Some (Resource ''IamWorkloadIdentityPool''
         [(''project'', Ref (this @ [''this'']) ''projectId''),
          (''workloadIdentityPoolId'', Str ''github''),
          (''dependsOn'', Arr [Res (this @ [''iam''])])])"
  by (simp add: GcpProject_children_def GcpProject_body_def comp_defs Let_def empty_world_def
       cong: bnd_weak_cong resource_weak_cong Resource_cong)

lemma declarations_GcpProject:
  assumes "projectId config \<notin> child_ids s"
  shows "declarations scope (snd (GcpProject config scope s)) =
         declarations scope s
         @ flats (scope @ [projectId config])
             (GcpProject_children config (scope @ [projectId config]))"
  using assms by (simp add: GcpProject_run declarations_def flats_append)

lemma acme_dev_topological_order:
  "topological_order (declarations [] (snd (GcpProject acme_dev_project [] empty_world)))
     (map fst (declarations [] (snd (GcpProject acme_dev_project [] empty_world))))"
  by code_simp

text \<open>
  C3. Composing a GcpProject under a scope where its id is free: the graph of the
  declarations below the scope has the implicit edge from the Project (\<open>this\<close>) to the
  tfstate StorageBucket, whose config embeds \<open>this.project.projectId\<close>, and the explicit
  edge from the iam ProjectService to the github workload identity pool, which lists it
  in \<open>dependsOn\<close>; for every declaration, every producer its config refers to or its
  \<open>dependsOn\<close> lists has an edge to it; and every topological order of the graph has the
  producer of every edge strictly before the consumer.
\<close>

theorem C3_implicit_and_explicit_edges:
  assumes "projectId config \<notin> child_ids s"
  shows "(scope @ [projectId config, ''this''], scope @ [projectId config, ''tfstate''])
           \<in> set (edges (declarations scope (snd (GcpProject config scope s))))
       \<and> (scope @ [projectId config, ''iam''], scope @ [projectId config, ''github-id-pool''])
           \<in> set (edges (declarations scope (snd (GcpProject config scope s))))
       \<and> (\<forall>d \<in> set (declarations scope (snd (GcpProject config scope s))).
            \<forall>q \<in> set (producers (snd (snd d))).
              (q, fst d) \<in> set (edges (declarations scope (snd (GcpProject config scope s)))))
       \<and> (\<forall>order. topological_order (declarations scope (snd (GcpProject config scope s))) order
            \<longrightarrow> (\<forall>e \<in> set (edges (declarations scope (snd (GcpProject config scope s)))).
                   precedes (fst e) (snd e) order))"
proof -
  let ?me = "scope @ [projectId config]"
  let ?ds = "declarations scope (snd (GcpProject config scope s))"
  have t: "(?me @ [''tfstate''], ''StorageBucket'',
         [(''project'', Ref (?me @ [''this'']) ''projectId''),
          (''name'', Cat [Ref (?me @ [''this'']) ''projectId'', Str ''-tfstate'']),
          (''location'', Str (case terraformStateLocation config of None \<Rightarrow> ''US'' | Some l \<Rightarrow> l)),
          (''storageClass'', Str ''STANDARD''),
          (''versioning'', Obj [(''enabled'', Bool True)])]) \<in> set ?ds"
    using flats_lookup[where p = ?me,
        OF GcpProject_tfstate[where config = config and this = ?me]]
    by (simp add: declarations_GcpProject[OF assms])
  have p: "(?me @ [''github-id-pool''], ''IamWorkloadIdentityPool'',
         [(''project'', Ref (?me @ [''this'']) ''projectId''),
          (''workloadIdentityPoolId'', Str ''github''),
          (''dependsOn'', Arr [Res (?me @ [''iam''])])]) \<in> set ?ds"
    using flats_lookup[where p = ?me,
        OF GcpProject_github_id_pool[where config = config and this = ?me]]
    by (simp add: declarations_GcpProject[OF assms])
  have 1: "(?me @ [''this''], ?me @ [''tfstate'']) \<in> set (edges ?ds)"
    by (rule edges_mem[OF t]) (simp add: producers_def)
  have 2: "(?me @ [''iam''], ?me @ [''github-id-pool'']) \<in> set (edges ?ds)"
    by (rule edges_mem[OF p]) (simp add: producers_def explicit_deps_def)
  have 3: "\<forall>d \<in> set ?ds. \<forall>q \<in> set (producers (snd (snd d))). (q, fst d) \<in> set (edges ?ds)"
    by (auto intro: edges_mem)
  have 4: "\<forall>order. topological_order ?ds order
            \<longrightarrow> (\<forall>e \<in> set (edges ?ds). precedes (fst e) (snd e) order)"
    by (auto intro: topological_order_edge)
  from 1 2 3 4 show ?thesis by simp
qed

theorem C3_edges_witness:
  "([''acme-dev'', ''this''], [''acme-dev'', ''tfstate''])
     \<in> set (edges (declarations [] (snd (GcpProject acme_dev_project [] empty_world))))
   \<and> ([''acme-dev'', ''iam''], [''acme-dev'', ''github-id-pool''])
     \<in> set (edges (declarations [] (snd (GcpProject acme_dev_project [] empty_world))))
   \<and> topological_order (declarations [] (snd (GcpProject acme_dev_project [] empty_world)))
       (map fst (declarations [] (snd (GcpProject acme_dev_project [] empty_world))))
   \<and> precedes [''acme-dev'', ''this''] [''acme-dev'', ''tfstate'']
       (map fst (declarations [] (snd (GcpProject acme_dev_project [] empty_world))))
   \<and> precedes [''acme-dev'', ''iam''] [''acme-dev'', ''github-id-pool'']
       (map fst (declarations [] (snd (GcpProject acme_dev_project [] empty_world))))"
proof -
  have h: "projectId acme_dev_project \<notin> child_ids empty_world"
    by (simp add: acme_dev_project_def empty_world_def child_ids_def)
  have p: "projectId acme_dev_project = ''acme-dev''"
    by (simp add: acme_dev_project_def)
  from C3_implicit_and_explicit_edges[OF h, of "[]"] acme_dev_topological_order p
  show ?thesis by fastforce
qed

lemma resource_registers: "i \<in> child_ids (snd (resource this k i cfg s))"
  by (simp add: resource_def child_ids_def)

lemma construct_registers: "i \<in> child_ids (snd (construct scope c i body s))"
  by (simp add: construct_def child_ids_def split: prod.splits)

lemma resource_dup:
  "i \<in> child_ids s \<Longrightarrow> resource this k i cfg s = (Inl (DuplicateIdentifierError (this @ [i])), s)"
  by (simp add: resource_def)

text \<open>
  C8. Under one parent, a registration with a logical id that is already registered
  raises DuplicateIdentifierError at once and registers nothing, whatever the kinds of
  the two: two resources, a resource and a construct in either order, two constructs;
  in particular a second GcpProject with the project id of an earlier one under the same
  scope. The first registration need not have succeeded itself.
\<close>

theorem C8_second_registration_raises:
  assumes "projectId c2 = projectId c1"
  shows "GcpProject c2 scope (snd (GcpProject c1 scope s))
           = (Inl (DuplicateIdentifierError (scope @ [projectId c1])), snd (GcpProject c1 scope s))
       \<and> resource scope k2 i cfg2 (snd (resource scope k1 i cfg1 s))
           = (Inl (DuplicateIdentifierError (scope @ [i])), snd (resource scope k1 i cfg1 s))
       \<and> construct scope c i body (snd (resource scope k1 i cfg1 s))
           = (Inl (DuplicateIdentifierError (scope @ [i])), snd (resource scope k1 i cfg1 s))
       \<and> resource scope k2 i cfg2 (snd (construct scope c i body s))
           = (Inl (DuplicateIdentifierError (scope @ [i])), snd (construct scope c i body s))
       \<and> construct scope c' i body' (snd (construct scope c i body s))
           = (Inl (DuplicateIdentifierError (scope @ [i])), snd (construct scope c i body s))"
  using assms
  by (simp add: GcpProject_def construct_dup resource_dup construct_registers resource_registers)

theorem C8_duplicate_project_witness:
  "GcpProject (acme_dev_project\<lparr>GcpProjectConfig.displayName := Some ''Acme''\<rparr>) []
     (snd (GcpProject acme_dev_project [] empty_world))
   = (Inl (DuplicateIdentifierError [''acme-dev'']), snd (GcpProject acme_dev_project [] empty_world))"
proof -
  have h: "projectId (acme_dev_project\<lparr>GcpProjectConfig.displayName := Some ''Acme''\<rparr>)
             = projectId acme_dev_project"
    by simp
  have p: "projectId acme_dev_project = ''acme-dev''"
    by (simp add: acme_dev_project_def)
  have "GcpProject (acme_dev_project\<lparr>GcpProjectConfig.displayName := Some ''Acme''\<rparr>) []
          (snd (GcpProject acme_dev_project [] empty_world))
        = (Inl (DuplicateIdentifierError ([] @ [projectId acme_dev_project])),
           snd (GcpProject acme_dev_project [] empty_world))"
    by (rule conjunct1[OF C8_second_registration_raises[OF h, of "[]" empty_world]])
  with p show ?thesis by simp
qed

section \<open>CurioStack: the derived environment and the instance\<close>

text \<open>
  C6. The code derives the environment as \<open>project.split("-")[1]\<close>, the second segment
  of the project id. For the project id \<open>my-project-dev\<close> with no githubEnvironment that
  is \<open>project\<close>, not the suffix \<open>dev\<close>: both in the githubEnvironmentIamMember of the
  CurioStack instance and in what a CurioStackService derives for CONFIG_ENV.
\<close>

theorem C6_second_segment_is_not_the_suffix:
  "githubEnv_of None ''my-project-dev'' = Str ''project''
   \<and> split_second (Str ''my-project-dev'') empty_world = (Inr (Str ''project''), empty_world)
   \<and> fst (CurioStack my_project_dev [] empty_world) =
       Inr (Obj [(''project'', Str ''my-project-dev''),
                 (''dockerRepository'', Res [''curiostack'', ''apps'', ''docker-registry'']),
                 (''ghcrRepository'', Res [''curiostack'', ''apps'', ''ghcr-repo'']),
                 (''githubEnvironmentIamMember'',
                    Cat [Str ''principal://iam.googleapis.com/'',
                         Ref [''curiostack'', ''apps'', ''github-id-pool''] ''name'',
                         Str ''/subject/repo:'', Str ''acme/app'',
                         Str '':environment:'', Str ''project'']),
                 (''runService'', Res [''curiostack'', ''apps'', ''service-run''])])"
  by (simp add: githubEnv_of_def at_index_def split_second_def ret_def
      CurioStack_def CurioStack_body_def construct_def Apps_body_def Identity_body_def comp_defs
      my_project_dev_def acme_curiostack_def empty_world_def falsy_str_def includes_chr_def Let_def)

lemma CurioStack_instance_has_no_config:
  assumes "fst (CurioStack config scope s) = Inr stack"
  shows "getprop stack ''config'' = Inr Undefined"
  using assms
  by (auto simp add: CurioStack_def construct_def CurioStack_body_def bnd_def ret_def getprop_def
      split: if_splits prod.splits sum.splits)

lemma acme_dev_stack_ok:
  "fst (CurioStack acme_dev_curiostack [] empty_world) = Inr acme_dev_stack"
proof -
  have "\<not> (falsy_str (CurioStackConfig.githubEnvironment acme_dev_curiostack)
           \<and> \<not> includes_chr (CurioStackConfig.project acme_dev_curiostack) CHR ''-'')"
    by (simp add: acme_dev_curiostack_def acme_curiostack_def includes_chr_def)
  from CurioStack_body_ok[OF this, of "empty_world\<lparr>kids := []\<rparr>" "[''curiostack'']"]
  obtain a where
    "fst (CurioStack_body acme_dev_curiostack [''curiostack''] (empty_world\<lparr>kids := []\<rparr>)) = Inr a"
    by auto
  then have "fst (CurioStack acme_dev_curiostack [] empty_world) = Inr a"
    by (simp add: CurioStack_def construct_fresh child_ids_def empty_world_def)
  then show ?thesis by (simp add: acme_dev_stack_def)
qed

text \<open>
  C10. For a CurioStackHosting config whose \<open>curiostack\<close> is an instance returned by the
  CurioStack constructor, constructing the CurioStackHosting always fails: with a
  DuplicateIdentifierError when its id is taken under the scope, and otherwise with the
  TypeError of destructuring \<open>config.curiostack.config\<close>, which is \<open>undefined\<close>; the
  construct is then registered with no declaration below it.
\<close>

theorem C10_hosting_always_fails:
  assumes "fst (CurioStack stack_config stack_scope stack_state) = Inr stack"
    and "CurioStackHostingConfig.curiostack config = stack"
  shows "CurioStackHosting config scope s =
           (if hosting_id config \<in> child_ids s
            then (Inl (DuplicateIdentifierError (scope @ [hosting_id config])), s)
            else (Inl (TypeError ''googleBeta''),
                  s\<lparr>kids := kids s @ [(hosting_id config, Scope ''CurioStackHosting'' [])]\<rparr>))"
  using CurioStack_instance_has_no_config[OF assms(1)] assms(2)
  by (simp add: CurioStackHosting_def construct_def CurioStackHosting_body_def getp_def bnd_def
      getprop_def)

theorem C10_hosting_witness:
  "CurioStackHosting acme_site [] empty_world =
     (Inl (TypeError ''googleBeta''),
      empty_world\<lparr>kids := [(hosting_id acme_site, Scope ''CurioStackHosting'' [])]\<rparr>)"
proof -
  have c: "CurioStackHostingConfig.curiostack acme_site = acme_dev_stack"
    by (simp add: acme_site_def)
  from C10_hosting_always_fails[OF acme_dev_stack_ok c, of "[]" empty_world] show ?thesis
    by (simp add: child_ids_def empty_world_def)
qed

section \<open>CurioStackService: the caller's array\<close>

lemma bnd_okE:
  assumes "bnd m f s = (Inr r, s')"
  obtains x s1 where "m s = (Inr x, s1)" "f x s1 = (Inr r, s')"
  using assms by (auto simp add: bnd_def split: prod.splits sum.splits)

lemma resource_okE:
  assumes "resource this k i cfg s = (Inr p, s')"
  obtains "p = this @ [i]" "arrays s' = arrays s"
  using assms by (auto simp add: resource_def split: if_splits)

lemma getp_okE:
  assumes "getp v k s = (Inr x, s')"
  obtains "s' = s" "getprop v k = Inr x"
  using assms by (auto simp add: getp_def)

lemma push_okE:
  assumes "push a v s = (Inr u, s')"
  obtains "arrays s' = (arrays s)[a := arrays s ! a @ [v]]"
  using assms by (auto simp add: push_def)

lemma read_array_okE:
  assumes "read_array a s = (Inr x, s')"
  obtains "s' = s"
  using assms by (auto simp add: read_array_def)

lemma ret_okE:
  assumes "ret x s = (Inr r, s')"
  obtains "r = x" "s' = s"
  using assms by (auto simp add: ret_def)

lemma config_env_okE:
  assumes "(case e of Some x \<Rightarrow> ret (Str x) | None \<Rightarrow> split_second p) s = (Inr r, s')"
  obtains "s' = s"
  using assms
  by (auto simp add: ret_def split_second_def throw_def Let_def
      split: option.splits jsval.splits if_splits)

lemma publicaccess_okE:
  assumes "(if b then bnd (resource this k i cfg) (\<lambda>_. ret ()) else ret ()) s = (Inr r, s')"
  obtains "arrays s' = arrays s"
  using assms by (auto simp add: ret_def bnd_def resource_def split: if_splits)

lemma envSecrets_loop_arrays:
  "envSecrets_loop this sa a ents env0 s = (Inr env1, s') \<Longrightarrow> a < length (arrays s) \<Longrightarrow>
   arrays s' = (arrays s)[a := arrays s ! a
                  @ map (\<lambda>e. Res (this @ [''secret-accessor-'' @ fst e])) ents]"
proof (induction ents arbitrary: env0 s)
  case Nil
  then show ?case by (simp add: ret_def)
next
  case (Cons e ents)
  obtain n sec where e: "e = (n, sec)" by (cases e)
  from Cons.prems(1) e show ?case
    apply (simp)
    apply (elim bnd_okE resource_okE push_okE)
    using Cons.prems(2) Cons.IH
    apply (auto)
    done
qed

lemma CurioStackService_body_arrays:
  assumes ok: "CurioStackService_body config this s = (Inr r, s')"
    and dep: "CurioStackServiceConfig.dependsOn config = Some a"
    and a: "a < length (arrays s)"
  shows "\<exists>runService'. getprop (CurioStackServiceConfig.curiostack config) ''runService'' = Inr runService'
     \<and> arrays s' =
        (arrays s)[a := arrays s ! a @ [runService']
           @ map (\<lambda>e. Res (this @ [''secret-accessor-'' @ fst e])) (entries (envSecrets config))
           @ [Res (this @ [''otel-bucket-reader''])]]"
  using ok unfolding CurioStackService_body_def Let_def dep option.case
  apply (elim bnd_okE resource_okE getp_okE push_okE read_array_okE ret_okE config_env_okE publicaccess_okE)
  apply (drule envSecrets_loop_arrays)
  using a apply simp
  using a apply simp
  done

text \<open>
  When the construction returns and the config's \<open>dependsOn\<close> is an array of the
  caller's, the constructor has pushed onto that very array \<open>curiostack.runService\<close>,
  one SecretManagerSecretIamMember per entry of \<open>envSecrets\<close> and the otel-bucket-reader
  StorageBucketIamMember. It returns only for a stack object that has \<open>otelBucket\<close>,
  which the CurioStack class of curiostack/index.ts does not assign.
\<close>

lemma CurioStackService_pushes_when_it_returns:
  assumes "fst (CurioStackService config scope s) = Inr r"
    and "CurioStackServiceConfig.dependsOn config = Some a"
    and "a < length (arrays s)"
  shows "\<exists>runService'.
       getprop (CurioStackServiceConfig.curiostack config) ''runService'' = Inr runService'
     \<and> arrays (snd (CurioStackService config scope s)) =
        (arrays s)[a := arrays s ! a @ [runService']
           @ map (\<lambda>e. Res (scope @ [CurioStackServiceConfig.name config, ''secret-accessor-'' @ fst e]))
               (entries (envSecrets config))
           @ [Res (scope @ [CurioStackServiceConfig.name config, ''otel-bucket-reader''])]]
     \<and> arrays (snd (CurioStackService config scope s)) ! a \<noteq> arrays s ! a"
proof -
  let ?me = "scope @ [CurioStackServiceConfig.name config]"
  from assms(1) have fresh: "CurioStackServiceConfig.name config \<notin> child_ids s"
    by (auto simp add: CurioStackService_def construct_def split: if_splits)
  obtain r1 s1 where b: "CurioStackService_body config ?me (s\<lparr>kids := []\<rparr>) = (r1, s1)"
    by (cases "CurioStackService_body config ?me (s\<lparr>kids := []\<rparr>)")
  with fresh assms(1) have r1: "r1 = Inr r"
    and s1: "arrays (snd (CurioStackService config scope s)) = arrays s1"
    by (simp_all add: CurioStackService_def construct_def)
  from CurioStackService_body_arrays[OF b[unfolded r1] assms(2)] assms(3)
  obtain rs where g: "getprop (CurioStackServiceConfig.curiostack config) ''runService'' = Inr rs"
    and u: "arrays s1 =
        (arrays s)[a := arrays s ! a @ [rs]
           @ map (\<lambda>e. Res (?me @ [''secret-accessor-'' @ fst e])) (entries (envSecrets config))
           @ [Res (?me @ [''otel-bucket-reader''])]]"
    by auto
  from u assms(3) have "arrays s1 ! a \<noteq> arrays s ! a"
    by simp
  with g u s1 show ?thesis by simp
qed

subsection \<open>On an instance of the CurioStack class\<close>

lemma CurioStack_instance:
  assumes "fst (CurioStack config scope s) = Inr stack"
  shows "stack =
    Obj [(''project'', Str (CurioStackConfig.project config)),
         (''dockerRepository'', Res (scope @ [''curiostack'', ''apps'', ''docker-registry''])),
         (''ghcrRepository'', Res (scope @ [''curiostack'', ''apps'', ''ghcr-repo''])),
         (''githubEnvironmentIamMember'',
            Cat [Str ''principal://iam.googleapis.com/'',
                 Ref (scope @ [''curiostack'', ''apps'', ''github-id-pool'']) ''name'',
                 Str ''/subject/repo:'', Str (githubRepo config),
                 Str '':environment:'',
                 githubEnv_of (CurioStackConfig.githubEnvironment config)
                   (CurioStackConfig.project config)]),
         (''runService'', Res (scope @ [''curiostack'', ''apps'', ''service-run'']))]"
  using assms
  by (auto simp add: CurioStack_def construct_def CurioStack_body_def Apps_body_def
      Identity_body_def comp_defs Let_def split: if_splits)

lemma envSecrets_loop_run:
  assumes "distinct (map fst ents)"
    and "\<forall>e \<in> set ents. ''secret-accessor-'' @ fst e \<notin> child_ids s"
    and "a < length (arrays s)"
  shows "envSecrets_loop this sa a ents env0 s =
    (Inr (env0 @ map secret_env ents),
     s\<lparr>kids := kids s @ map (secret_member sa) ents,
       arrays := (arrays s)[a := arrays s ! a
                   @ map (\<lambda>e. Res (this @ [''secret-accessor-'' @ fst e])) ents]\<rparr>)"
  using assms
proof (induction ents arbitrary: env0 s)
  case Nil
  then show ?case by (simp add: ret_def)
next
  case (Cons e ents)
  obtain n sec where e: "e = (n, sec)" by (cases e)
  let ?s1 = "s\<lparr>kids := kids s @ [secret_member sa e],
               arrays := (arrays s)[a := arrays s ! a @ [Res (this @ [''secret-accessor-'' @ n])]]\<rparr>"
  have d: "distinct (map fst ents)" using Cons.prems(1) by simp
  have f: "\<forall>x \<in> set ents. ''secret-accessor-'' @ fst x \<notin> child_ids ?s1"
    using Cons.prems(1,2) e by (auto simp add: child_ids_def secret_member_def)
  have l: "a < length (arrays ?s1)" using Cons.prems(3) by simp
  have fresh: "''secret-accessor-'' @ n \<notin> child_ids s" using Cons.prems(2) e by simp
  from Cons.IH[OF d f l] fresh Cons.prems(3) e show ?case
    by (simp add: bnd_def resource_def push_def secret_member_def secret_env_def)
qed

lemma config_env_Str:
  "(case e of Some x \<Rightarrow> ret (Str x) | None \<Rightarrow> split_second (Str p)) s =
     (Inr (case e of Some x \<Rightarrow> Str x | None \<Rightarrow> at_index (split_on CHR ''-'' p) 1), s)"
  by (simp add: ret_def split_second_def split: option.split)

lemma CurioStackService_body_on_instance:
  assumes stack: "fst (CurioStack stack_config stack_scope stack_state) = Inr stack"
    and cs: "CurioStackServiceConfig.curiostack config = stack"
    and dep: "CurioStackServiceConfig.dependsOn config = Some a"
    and a: "a < length (arrays s)"
    and d: "distinct (map fst (entries (envSecrets config)))"
    and k: "kids s = []"
  shows "fst (CurioStackService_body config this s) = Inl (TypeError ''name'')
     \<and> arrays (snd (CurioStackService_body config this s)) =
         (arrays s)[a := arrays s ! a
            @ Res (stack_scope @ [''curiostack'', ''apps'', ''service-run''])
            # map (\<lambda>e. Res (this @ [''secret-accessor-'' @ fst e])) (entries (envSecrets config))]
     \<and> map fst (kids (snd (CurioStackService_body config this s))) =
         [''service-account'', ''service-account-metrics'', ''service-account-traces'',
          ''service-account-profiles'', ''cloudrun-github'']
         @ map (\<lambda>e. ''secret-accessor-'' @ fst e) (entries (envSecrets config))"
  using a d k
  unfolding CurioStackService_body_def cs CurioStack_instance[OF stack] dep Let_def
  by (simp add: getp_def getprop_def bnd_def resource_def child_ids_def push_def ret_def
      config_env_Str envSecrets_loop_run secret_member_def comp_def
      cong: bnd_weak_cong resource_weak_cong Resource_cong)

text \<open>
  C9. On every instance the CurioStack constructor returns, constructing a
  CurioStackService with a caller's array as \<open>dependsOn\<close> (under a scope where its name
  is free) throws: \<open>config.curiostack.otelBucket\<close> is \<open>undefined\<close>, and reading its
  \<open>name\<close> is a TypeError. By then the constructor has pushed \<open>curiostack.runService\<close> and
  one SecretManagerSecretIamMember per entry of \<open>envSecrets\<close> onto the caller's array;
  the otel-bucket-reader member is neither declared nor pushed, and no Cloud Run service
  is declared.
\<close>

theorem C9_service_throws_before_the_otel_member:
  assumes "fst (CurioStack stack_config stack_scope stack_state) = Inr stack"
    and "CurioStackServiceConfig.curiostack config = stack"
    and "CurioStackServiceConfig.dependsOn config = Some a"
    and "a < length (arrays s)"
    and "CurioStackServiceConfig.name config \<notin> child_ids s"
    and "distinct (map fst (entries (envSecrets config)))"
  shows "fst (CurioStackService config scope s) = Inl (TypeError ''name'')
     \<and> arrays (snd (CurioStackService config scope s)) =
         (arrays s)[a := arrays s ! a
            @ Res (stack_scope @ [''curiostack'', ''apps'', ''service-run''])
            # map (\<lambda>e. Res (scope @ [CurioStackServiceConfig.name config,
                                       ''secret-accessor-'' @ fst e]))
                (entries (envSecrets config))]
     \<and> map (\<lambda>(i, n). (i, case n of Scope c ch \<Rightarrow> map fst ch | Resource k cfg \<Rightarrow> []))
         (added s (snd (CurioStackService config scope s))) =
         [(CurioStackServiceConfig.name config,
           [''service-account'', ''service-account-metrics'', ''service-account-traces'',
            ''service-account-profiles'', ''cloudrun-github'']
           @ map (\<lambda>e. ''secret-accessor-'' @ fst e) (entries (envSecrets config)))]"
proof -
  have a': "a < length (arrays (s\<lparr>kids := []\<rparr>))" using assms(4) by simp
  have k: "kids (s\<lparr>kids := []\<rparr>) = []" by simp
  from CurioStackService_body_on_instance[OF assms(1,2,3) a' assms(6) k,
      of "scope @ [CurioStackServiceConfig.name config]"] assms(5)
  show ?thesis
    by (simp add: CurioStackService_def construct_fresh added_def)
qed

theorem C9_api_service_witness:
  "fst (CurioStackService api_service [] caller_world) = Inl (TypeError ''name'')
   \<and> arrays (snd (CurioStackService api_service [] caller_world)) =
       [[Res [''caller-dependency''],
         Res [''curiostack'', ''apps'', ''service-run''],
         Res [''api'', ''secret-accessor-DB_PASSWORD'']]]
   \<and> map (\<lambda>(i, n). (i, case n of Scope c ch \<Rightarrow> map fst ch | Resource k cfg \<Rightarrow> []))
       (added caller_world (snd (CurioStackService api_service [] caller_world))) =
       [(''api'',
         [''service-account'', ''service-account-metrics'', ''service-account-traces'',
          ''service-account-profiles'', ''cloudrun-github'', ''secret-accessor-DB_PASSWORD''])]"
proof -
  have c: "CurioStackServiceConfig.curiostack api_service = acme_dev_stack"
    by (simp add: api_service_def)
  have d: "CurioStackServiceConfig.dependsOn api_service = Some 0"
    by (simp add: api_service_def)
  have a: "0 < length (arrays caller_world)"
    by (simp add: caller_world_def)
  have f: "CurioStackServiceConfig.name api_service \<notin> child_ids caller_world"
    by (simp add: child_ids_def caller_world_def)
  have e: "distinct (map fst (entries (envSecrets api_service)))"
    by (simp add: api_service_def entries_def)
  from C9_service_throws_before_the_otel_member[OF acme_dev_stack_ok c d a f e, of "[]"]
  show ?thesis
    by (simp add: api_service_def caller_world_def entries_def)
qed

section \<open>GitHubRepository: defaults and overrides\<close>

lemma map_of_set_prop: "map_of (set_prop k v ps) k' = (if k' = k then Some v else map_of ps k')"
  by (induction ps) auto

lemma map_of_assignments:
  "distinct (map fst ps) \<Longrightarrow>
   map_of (foldl (\<lambda>acc (k, v). set_prop k v acc) base ps) k =
     (case map_of ps k of Some v \<Rightarrow> Some v | None \<Rightarrow> map_of base k)"
proof (induction ps arbitrary: base)
  case Nil
  then show ?case by simp
next
  case (Cons p ps)
  obtain k' v' where p: "p = (k', v')" by (cases p)
  from Cons.prems p have d: "distinct (map fst ps)" and n: "map_of ps k' = None"
    by (auto simp add: map_of_eq_None_iff)
  from Cons.IH[OF d, of "set_prop k' v' base"] p n show ?case
    by (auto simp add: map_of_set_prop split: option.splits)
qed

lemma spread_override_wins:
  "distinct_keys over \<Longrightarrow> map_of (spread base over) k = override_wins base over k"
  by (cases over) (simp_all add: spread_def override_wins_def distinct_keys_def map_of_assignments)

lemma tree_local_GitHubRepository_body: "tree_local (GitHubRepository_body config this)"
  unfolding GitHubRepository_body_def
  by (intro tree_local_bnd tree_local_resource tree_local_ret tree_local_if)

lemma GitHubRepository_result:
  "GitHubRepository_result config this = Inr \<lparr>repository = this @ [''this'']\<rparr>"
  by (simp add: GitHubRepository_result_def GitHubRepository_body_def comp_defs empty_world_def
       cong: bnd_weak_cong resource_weak_cong Resource_cong)

lemma GitHubRepository_run:
  "GitHubRepositoryConfig.name config \<notin> child_ids s \<Longrightarrow>
   GitHubRepository config scope s =
     (GitHubRepository_result config (scope @ [GitHubRepositoryConfig.name config]),
      s\<lparr>kids := kids s @ [(GitHubRepositoryConfig.name config,
                            Scope ''GitHubRepository''
                              (GitHubRepository_children config
                                 (scope @ [GitHubRepositoryConfig.name config])))]\<rparr>)"
  using tree_local_run[OF tree_local_GitHubRepository_body, of "s\<lparr>kids := []\<rparr>" config
      "scope @ [GitHubRepositoryConfig.name config]"]
  by (simp add: GitHubRepository_def construct_fresh GitHubRepository_result_def
      GitHubRepository_children_def)

lemmas GitHubRepository_eval =
  GitHubRepository_children_def GitHubRepository_body_def comp_defs empty_world_def

lemma GitHubRepository_this:
  "map_of (GitHubRepository_children config this) ''this'' =
   Some (Resource ''Repository''
          (spread (repository_defaults (GitHubRepositoryConfig.name config)) (repositoryConfig config)))"
  by (simp add: GitHubRepository_eval cong: bnd_weak_cong resource_weak_cong Resource_cong)

lemma GitHubRepository_main_ruleset:
  "map_of (GitHubRepository_children config this) ''main-ruleset'' =
   Some (Resource ''RepositoryRuleset''
          (spread (main_ruleset_defaults (this @ [''this''])) (mainRulesetConfig config)))"
  by (simp add: GitHubRepository_eval cong: bnd_weak_cong resource_weak_cong Resource_cong)

lemma GitHubRepository_release_ruleset:
  "map_of (GitHubRepository_children config this) ''release-ruleset'' =
   Some (Resource ''RepositoryRuleset''
          (spread (release_ruleset_defaults (this @ [''this''])) (releaseRulesetConfig config)))"
  by (simp add: GitHubRepository_eval cong: bnd_weak_cong resource_weak_cong Resource_cong)

lemma GitHubRepository_env_dev_viewer:
  "map_of (GitHubRepository_children config this) ''env-dev-viewer'' =
   Some (Resource ''RepositoryEnvironment''
          (spread (viewer_environment_defaults (this @ [''this'']))
             (devViewerEnvironmentConfig config)))"
  by (simp add: GitHubRepository_eval cong: bnd_weak_cong resource_weak_cong Resource_cong)

lemma GitHubRepository_env_dev:
  "map_of (GitHubRepository_children config this) ''env-dev'' =
   Some (Resource ''RepositoryEnvironment''
          (spread (environment_defaults (this @ [''this'']) ''dev'') (devEnvironmentConfig config)))"
  by (simp add: GitHubRepository_eval cong: bnd_weak_cong resource_weak_cong Resource_cong)

lemma GitHubRepository_env_prod_viewer:
  "map_of (GitHubRepository_children config this) ''env-prod-viewer'' =
   Some (Resource ''RepositoryEnvironment''
          (spread (environment_defaults (this @ [''this'']) ''prod-viewer'')
             (prodViewerEnvironmentConfig config)))"
  by (simp add: GitHubRepository_eval cong: bnd_weak_cong resource_weak_cong Resource_cong)

lemma GitHubRepository_env_prod:
  "map_of (GitHubRepository_children config this) ''env-prod'' =
   Some (Resource ''RepositoryEnvironment''
          (spread (environment_defaults (this @ [''this'']) ''prod'') (prodEnvironmentConfig config)))"
  by (simp add: GitHubRepository_eval cong: bnd_weak_cong resource_weak_cong Resource_cong)

lemma map_of_new_child:
  "i \<notin> child_ids s \<Longrightarrow> map_of (kids s @ [(i, n)]) i = Some n"
  by (simp add: child_ids_def map_add_def map_of_eq_None_iff[symmetric] del: map_of_eq_None_iff)

lemma node_at_new_scope:
  "i \<notin> child_ids s \<Longrightarrow>
   node_at (kids s @ [(i, Scope c ch)]) [i, j] = map_of ch j"
  by (simp add: map_of_new_child del: map_of_append)

text \<open>
  C2. Composing a GitHubRepository under a scope where its name is free, with caller
  objects that have each key once: the Repository, the main and release rulesets and
  the four environments that take a caller config are declared with the spread of the
  defaults and the caller's object, and in each of them every key has the caller's value
  when the caller supplies the key and the default otherwise. The merge is shallow: the
  value of a key is taken whole, never combined with the default's.
\<close>

theorem C2_override_wins_shallow_merge:
  assumes fresh: "GitHubRepositoryConfig.name config \<notin> child_ids s"
    and wf: "distinct_keys (repositoryConfig config)" "distinct_keys (mainRulesetConfig config)"
      "distinct_keys (releaseRulesetConfig config)"
      "distinct_keys (devViewerEnvironmentConfig config)"
      "distinct_keys (devEnvironmentConfig config)"
      "distinct_keys (prodViewerEnvironmentConfig config)"
      "distinct_keys (prodEnvironmentConfig config)"
  shows "node_at (kids (snd (GitHubRepository config scope s))) [GitHubRepositoryConfig.name config, ''this'']
        = Some (Resource ''Repository''
                 (spread (repository_defaults (GitHubRepositoryConfig.name config))
                    (repositoryConfig config)))
     \<and> (\<forall>k. map_of (spread (repository_defaults (GitHubRepositoryConfig.name config))
                         (repositoryConfig config)) k
              = override_wins (repository_defaults (GitHubRepositoryConfig.name config))
                  (repositoryConfig config) k)
     \<and> node_at (kids (snd (GitHubRepository config scope s))) [GitHubRepositoryConfig.name config, ''main-ruleset'']
        = Some (Resource ''RepositoryRuleset''
                 (spread (main_ruleset_defaults (scope @ [GitHubRepositoryConfig.name config, ''this'']))
                    (mainRulesetConfig config)))
     \<and> (\<forall>k. map_of (spread (main_ruleset_defaults (scope @ [GitHubRepositoryConfig.name config, ''this'']))
                         (mainRulesetConfig config)) k
              = override_wins (main_ruleset_defaults (scope @ [GitHubRepositoryConfig.name config, ''this'']))
                  (mainRulesetConfig config) k)
     \<and> node_at (kids (snd (GitHubRepository config scope s))) [GitHubRepositoryConfig.name config, ''release-ruleset'']
        = Some (Resource ''RepositoryRuleset''
                 (spread (release_ruleset_defaults (scope @ [GitHubRepositoryConfig.name config, ''this'']))
                    (releaseRulesetConfig config)))
     \<and> (\<forall>k. map_of (spread (release_ruleset_defaults (scope @ [GitHubRepositoryConfig.name config, ''this'']))
                         (releaseRulesetConfig config)) k
              = override_wins (release_ruleset_defaults (scope @ [GitHubRepositoryConfig.name config, ''this'']))
                  (releaseRulesetConfig config) k)
     \<and> node_at (kids (snd (GitHubRepository config scope s))) [GitHubRepositoryConfig.name config, ''env-dev-viewer'']
        = Some (Resource ''RepositoryEnvironment''
                 (spread (viewer_environment_defaults (scope @ [GitHubRepositoryConfig.name config, ''this'']))
                    (devViewerEnvironmentConfig config)))
     \<and> (\<forall>k. map_of (spread (viewer_environment_defaults (scope @ [GitHubRepositoryConfig.name config, ''this'']))
                         (devViewerEnvironmentConfig config)) k
              = override_wins (viewer_environment_defaults (scope @ [GitHubRepositoryConfig.name config, ''this'']))
                  (devViewerEnvironmentConfig config) k)
     \<and> node_at (kids (snd (GitHubRepository config scope s))) [GitHubRepositoryConfig.name config, ''env-dev'']
        = Some (Resource ''RepositoryEnvironment''
                 (spread (environment_defaults (scope @ [GitHubRepositoryConfig.name config, ''this'']) ''dev'')
                    (devEnvironmentConfig config)))
     \<and> (\<forall>k. map_of (spread (environment_defaults (scope @ [GitHubRepositoryConfig.name config, ''this'']) ''dev'')
                         (devEnvironmentConfig config)) k
              = override_wins (environment_defaults (scope @ [GitHubRepositoryConfig.name config, ''this'']) ''dev'')
                  (devEnvironmentConfig config) k)
     \<and> node_at (kids (snd (GitHubRepository config scope s))) [GitHubRepositoryConfig.name config, ''env-prod-viewer'']
        = Some (Resource ''RepositoryEnvironment''
                 (spread (environment_defaults (scope @ [GitHubRepositoryConfig.name config, ''this'']) ''prod-viewer'')
                    (prodViewerEnvironmentConfig config)))
     \<and> (\<forall>k. map_of (spread (environment_defaults (scope @ [GitHubRepositoryConfig.name config, ''this'']) ''prod-viewer'')
                         (prodViewerEnvironmentConfig config)) k
              = override_wins (environment_defaults (scope @ [GitHubRepositoryConfig.name config, ''this'']) ''prod-viewer'')
                  (prodViewerEnvironmentConfig config) k)
     \<and> node_at (kids (snd (GitHubRepository config scope s))) [GitHubRepositoryConfig.name config, ''env-prod'']
        = Some (Resource ''RepositoryEnvironment''
                 (spread (environment_defaults (scope @ [GitHubRepositoryConfig.name config, ''this'']) ''prod'')
                    (prodEnvironmentConfig config)))
     \<and> (\<forall>k. map_of (spread (environment_defaults (scope @ [GitHubRepositoryConfig.name config, ''this'']) ''prod'')
                         (prodEnvironmentConfig config)) k
              = override_wins (environment_defaults (scope @ [GitHubRepositoryConfig.name config, ''this'']) ''prod'')
                  (prodEnvironmentConfig config) k)"
  using fresh wf
  by (simp add: GitHubRepository_run map_of_new_child spread_override_wins
      GitHubRepository_this GitHubRepository_main_ruleset GitHubRepository_release_ruleset
      GitHubRepository_env_dev_viewer GitHubRepository_env_dev GitHubRepository_env_prod_viewer
      GitHubRepository_env_prod del: map_of_append)

text \<open>
  At a concrete input: a caller's \<open>rules\<close> with one property replaces the default
  \<open>rules\<close> (which has four) whole, the keys it leaves out keep their defaults.
\<close>

theorem C2_override_witness:
  "node_at (kids (snd (GitHubRepository acme_repository [] empty_world))) [''acme'', ''main-ruleset'']
     = Some (Resource ''RepositoryRuleset''
              (spread (main_ruleset_defaults [''acme'', ''this''])
                 (Some [(''rules'', Obj [(''deletion'', Bool False)])])))
   \<and> map_of (spread (main_ruleset_defaults [''acme'', ''this''])
                (Some [(''rules'', Obj [(''deletion'', Bool False)])])) ''rules''
       = Some (Obj [(''deletion'', Bool False)])
   \<and> map_of (spread (main_ruleset_defaults [''acme'', ''this''])
                (Some [(''rules'', Obj [(''deletion'', Bool False)])])) ''enforcement''
       = Some (Str ''active'')
   \<and> map_of (spread (repository_defaults ''acme'')
                (Some [(''allowMergeCommit'', Bool True), (''visibility'', Str ''private'')]))
         ''allowMergeCommit''
       = Some (Bool True)"
proof -
  have f: "GitHubRepositoryConfig.name acme_repository \<notin> child_ids empty_world"
    by (simp add: child_ids_def empty_world_def)
  have w: "distinct_keys (repositoryConfig acme_repository)"
      "distinct_keys (mainRulesetConfig acme_repository)"
      "distinct_keys (releaseRulesetConfig acme_repository)"
      "distinct_keys (devViewerEnvironmentConfig acme_repository)"
      "distinct_keys (devEnvironmentConfig acme_repository)"
      "distinct_keys (prodViewerEnvironmentConfig acme_repository)"
      "distinct_keys (prodEnvironmentConfig acme_repository)"
    by (simp_all add: acme_repository_def distinct_keys_def)
  from C2_override_wins_shallow_merge[OF f w, of "[]"] show ?thesis
    by (simp add: acme_repository_def override_wins_def main_ruleset_defaults_def
        repository_defaults_def)
qed


section \<open>Bootstrap: identifier derivation\<close>

lemma tree_local_case_option:
  "tree_local m \<Longrightarrow> (\<And>x. tree_local (f x)) \<Longrightarrow>
   tree_local (case v of None \<Rightarrow> m | Some x \<Rightarrow> f x)"
  by (cases v) simp_all

lemma tree_local_GcpProject: "tree_local (GcpProject config scope)"
  unfolding GcpProject_def by (intro tree_local_construct tree_local_GcpProject_body)

lemma tree_local_GitHubRepository: "tree_local (GitHubRepository config scope)"
  unfolding GitHubRepository_def by (intro tree_local_construct tree_local_GitHubRepository_body)

lemma tree_local_Bootstrap_body: "tree_local (Bootstrap_body dirname config this)"
  unfolding Bootstrap_body_def Bootstrap_tail_def Let_def
  by (intro tree_local_bnd tree_local_resource tree_local_ret tree_local_if
      tree_local_case_option tree_local_GcpProject tree_local_GitHubRepository)

lemma Bootstrap_run:
  "BootstrapConfig.name config \<notin> child_ids s \<Longrightarrow>
   Bootstrap dirname config scope s =
     (Bootstrap_result dirname config (scope @ [BootstrapConfig.name config]),
      s\<lparr>kids := kids s @ [(BootstrapConfig.name config,
                            Scope ''Bootstrap''
                              (Bootstrap_children dirname config
                                 (scope @ [BootstrapConfig.name config])))]\<rparr>)"
  using tree_local_run[OF tree_local_Bootstrap_body, of "s\<lparr>kids := []\<rparr>" dirname config
      "scope @ [BootstrapConfig.name config]"]
  by (simp add: Bootstrap_def construct_fresh Bootstrap_result_def Bootstrap_children_def)

subsection \<open>Appending resources\<close>

lemma plain_resources_append:
  "plain_resources ks (a @ b) = (plain_resources ks a \<and> plain_resources ks b)"
  by (induction ks a rule: plain_resources.induct) auto

lemma appends_only_ret: "appends_only ks (ret x)"
  by (simp add: appends_only_def ret_def)

lemma appends_only_resource: "k \<in> set ks \<Longrightarrow> appends_only ks (resource this k i cfg)"
  by (simp add: appends_only_def resource_def)

lemma appends_only_bnd:
  assumes m: "appends_only ks m" and f: "\<And>x. appends_only ks (f x)"
  shows "appends_only ks (bnd m f)"
  unfolding appends_only_def
proof
  fix s :: world
  obtain r s1 where a: "m s = (r, s1)" by (cases "m s")
  from m a obtain rest where r1: "kids s1 = kids s @ rest" "plain_resources ks rest"
    by (auto simp add: appends_only_def dest: spec[of _ s])
  show "\<exists>rest. kids (snd (bnd m f s)) = kids s @ rest \<and> plain_resources ks rest"
  proof (cases r)
    case (Inl e)
    with a r1 show ?thesis by (simp add: bnd_def)
  next
    case (Inr x)
    from f[of x] obtain rest' where "kids (snd (f x s1)) = kids s1 @ rest'" "plain_resources ks rest'"
      by (auto simp add: appends_only_def dest: spec[of _ s1])
    with Inr a r1 show ?thesis
      by (intro exI[of _ "rest @ rest'"]) (simp add: bnd_def plain_resources_append)
  qed
qed

lemma appends_only_if:
  "appends_only ks m \<Longrightarrow> appends_only ks n \<Longrightarrow> appends_only ks (if b then m else n)"
  by simp

lemma appends_only_case_option:
  "appends_only ks m \<Longrightarrow> (\<And>x. appends_only ks (f x)) \<Longrightarrow>
   appends_only ks (case v of None \<Rightarrow> m | Some x \<Rightarrow> f x)"
  by (cases v) simp_all

lemma appends_only_Bootstrap_tail:
  "appends_only [''RepositoryFile'', ''DnsManagedZone'', ''DnsRecordSet'']
     (Bootstrap_tail dirname config this p1 p2 p3 t r1 r2)"
  unfolding Bootstrap_tail_def Let_def
  by (intro appends_only_bnd appends_only_if appends_only_case_option appends_only_resource
      appends_only_ret) simp_all

lemma scopes_of_class_plain: "plain_resources ks r \<Longrightarrow> scopes_of_class c r = []"
  by (induction ks r rule: plain_resources.induct) auto

lemma scopes_of_class_append:
  "scopes_of_class c (a @ b) = scopes_of_class c a @ scopes_of_class c b"
  by (induction c a rule: scopes_of_class.induct) auto

lemma resources_of_kind_plain:
  "plain_resources ks r \<Longrightarrow> k \<notin> set ks \<Longrightarrow> resources_of_kind k r = []"
  by (induction ks r rule: plain_resources.induct) auto

lemma resources_of_kind_append:
  "resources_of_kind k (a @ b) = resources_of_kind k a @ resources_of_kind k b"
  by (induction k a rule: resources_of_kind.induct) auto

lemma literal_eq_append:
  "(zs = xs @ ys) =
   (length ys \<le> length zs \<and> take (length zs - length ys) zs = xs
    \<and> drop (length zs - length ys) zs = ys)"
  by (metis add_diff_cancel_right' append_eq_conv_conj append_take_drop_id le_add2 length_append)

lemma infra_not_admins: "N @ ''-infra'' \<noteq> ''github-admins''"
  using literal_eq_append[of "''github-admins''" N "''-infra''"] by auto

lemma projectId_project_config [simp]:
  "projectId (project_config config suffix e) = BootstrapConfig.name config @ suffix"
  by (simp add: project_config_def)

lemma name_repository_config [simp]:
  "GitHubRepositoryConfig.name (repository_config n team rc prodc) = n"
  by (simp add: repository_config_def)

lemmas Bootstrap_eval =
  Bootstrap_body_def bnd_def resource_def child_ids_def
  empty_world_def GcpProject_run GcpProject_result GitHubRepository_run GitHubRepository_result
  literal_eq_append[of "''github-admins''"] infra_not_admins

text \<open>
  The six registrations before the first conditional, when none of them clashes; what
  follows only appends workflow files and DNS resources.
\<close>

lemma Bootstrap_children_split:
  assumes "BootstrapConfig.name config \<noteq> ''github-admins''"
  shows "\<exists>rest.
    Bootstrap_children dirname config this =
           [(BootstrapConfig.name config @ ''-sysadmin'',
               Scope ''GcpProject''
                 (GcpProject_children (project_config config ''-sysadmin'' ''prod'')
                    (this @ [BootstrapConfig.name config @ ''-sysadmin'']))),
            (BootstrapConfig.name config @ ''-dev'',
               Scope ''GcpProject''
                 (GcpProject_children (project_config config ''-dev'' ''dev'')
                    (this @ [BootstrapConfig.name config @ ''-dev'']))),
            (BootstrapConfig.name config @ ''-prod'',
               Scope ''GcpProject''
                 (GcpProject_children (project_config config ''-prod'' ''prod'')
                    (this @ [BootstrapConfig.name config @ ''-prod'']))),
            (''github-admins'',
               Resource ''Team''
                 [(''name'', Str (BootstrapConfig.name config @ ''-admins'')),
                  (''description'',
                     Str (''Administrators for the '' @ BootstrapConfig.name config @ '' project'')),
                  (''privacy'', Str ''closed'')]),
            (BootstrapConfig.name config,
               Scope ''GitHubRepository''
                 (GitHubRepository_children
                    (repository_config (BootstrapConfig.name config)
                       (Ref (this @ [''github-admins'']) ''id'') (appRepositoryConfig config) None)
                    (this @ [BootstrapConfig.name config]))),
            (BootstrapConfig.name config @ ''-infra'',
               Scope ''GitHubRepository''
                 (GitHubRepository_children
                    (repository_config (BootstrapConfig.name config @ ''-infra'')
                       (Ref (this @ [''github-admins'']) ''id'') (infraRepositoryConfig config)
                       (Some [(''reviewers'',
                               Arr [Obj [(''teams'',
                                         Arr [Call ''tonumber''
                                                [Ref (this @ [''github-admins'']) ''id'']])]])]))
                    (this @ [BootstrapConfig.name config @ ''-infra''])))] @ rest
    \<and> plain_resources [''RepositoryFile'', ''DnsManagedZone'', ''DnsRecordSet''] rest"
    (is "\<exists>rest. _ = ?six @ rest \<and> _")
proof -
  have "\<exists>p1 p2 p3 r1 r2.
    Bootstrap_body dirname config this empty_world =
      Bootstrap_tail dirname config this p1 p2 p3 (this @ [''github-admins'']) r1 r2
        (empty_world\<lparr>kids := ?six\<rparr>)"
    using assms
    by (intro exI)
      (simp add: Bootstrap_eval cong: bnd_weak_cong resource_weak_cong Resource_cong, simp)
  then obtain p1 p2 p3 r1 r2 where
    "Bootstrap_body dirname config this empty_world =
      Bootstrap_tail dirname config this p1 p2 p3 (this @ [''github-admins'']) r1 r2
        (empty_world\<lparr>kids := ?six\<rparr>)"
    by blast
  moreover from appends_only_Bootstrap_tail obtain rest where
    "kids (snd (Bootstrap_tail dirname config this p1 p2 p3 (this @ [''github-admins'']) r1 r2
        (empty_world\<lparr>kids := ?six\<rparr>))) = kids (empty_world\<lparr>kids := ?six\<rparr>) @ rest"
    "plain_resources [''RepositoryFile'', ''DnsManagedZone'', ''DnsRecordSet''] rest"
    unfolding appends_only_def by blast
  ultimately show ?thesis
    by (intro exI[of _ rest]) (simp add: Bootstrap_children_def)
qed

lemma Bootstrap_added:
  "BootstrapConfig.name config \<notin> child_ids s \<Longrightarrow>
   added s (snd (Bootstrap dirname config scope s)) =
     [(BootstrapConfig.name config,
       Scope ''Bootstrap''
         (Bootstrap_children dirname config (scope @ [BootstrapConfig.name config])))]"
  by (simp add: Bootstrap_run added_def)

text \<open>
  Identifier derivation, for a name other than \<open>github-admins\<close> that is free in the
  scope. With N the name and O the GitHub organisation of the config, the Bootstrap
  scope N is added, and among its children the GcpProject constructs are exactly
  N-sysadmin, N-dev and N-prod, each built from a config with that project id and
  githubInfraRepo O/N-infra; the GitHubRepository constructs are exactly N and N-infra,
  built from configs with these names; and the only Team is named N-admins. Nothing but
  the config and the path of the scope occurs on the right-hand sides.
\<close>

lemma Bootstrap_identifiers:
  assumes "BootstrapConfig.name config \<noteq> ''github-admins''"
    and "BootstrapConfig.name config \<notin> child_ids s"
  shows
    "let N = BootstrapConfig.name config;
         this = scope @ [N];
         team = Ref (this @ [''github-admins'']) ''id'';
         ch = Bootstrap_children dirname config this
     in added s (snd (Bootstrap dirname config scope s)) = [(N, Scope ''Bootstrap'' ch)]
      \<and> scopes_of_class ''GcpProject'' ch = [N @ ''-sysadmin'', N @ ''-dev'', N @ ''-prod'']
      \<and> (\<forall>(suffix, e) \<in> set [(''-sysadmin'', ''prod''), (''-dev'', ''dev''), (''-prod'', ''prod'')].
            map_of ch (N @ suffix) =
              Some (Scope ''GcpProject''
                (GcpProject_children
                   \<lparr>projectId = N @ suffix,
                    displayName = None,
                    GcpProjectConfig.organizationId = BootstrapConfig.organizationId config,
                    GcpProjectConfig.billingAccountId = BootstrapConfig.billingAccountId config,
                    githubInfraRepo = githubOrg config @ ''/'' @ N @ ''-infra'',
                    githubEnvironment = e,
                    terraformStateLocation = None,
                    GcpProjectConfig.googleBeta = BootstrapConfig.googleBeta config,
                    dependsOn = None\<rparr>
                   (this @ [N @ suffix]))))
      \<and> scopes_of_class ''GitHubRepository'' ch = [N, N @ ''-infra'']
      \<and> map_of ch N =
          Some (Scope ''GitHubRepository''
            (GitHubRepository_children
               \<lparr>GitHubRepositoryConfig.name = N,
                adminTeam = Some team,
                repositoryConfig = appRepositoryConfig config,
                mainRulesetConfig = None,
                releaseRulesetConfig = None,
                devEnvironmentConfig = None,
                devViewerEnvironmentConfig = None,
                prodEnvironmentConfig = None,
                prodViewerEnvironmentConfig = None\<rparr>
               (this @ [N])))
      \<and> map_of ch (N @ ''-infra'') =
          Some (Scope ''GitHubRepository''
            (GitHubRepository_children
               \<lparr>GitHubRepositoryConfig.name = N @ ''-infra'',
                adminTeam = Some team,
                repositoryConfig = infraRepositoryConfig config,
                mainRulesetConfig = None,
                releaseRulesetConfig = None,
                devEnvironmentConfig = None,
                devViewerEnvironmentConfig = None,
                prodEnvironmentConfig =
                  Some [(''reviewers'', Arr [Obj [(''teams'', Arr [Call ''tonumber'' [team]])]])],
                prodViewerEnvironmentConfig = None\<rparr>
               (this @ [N @ ''-infra''])))
      \<and> resources_of_kind ''Team'' ch =
          [(''github-admins'',
            [(''name'', Str (N @ ''-admins'')),
             (''description'', Str (''Administrators for the '' @ N @ '' project'')),
             (''privacy'', Str ''closed'')])]"
proof -
  from Bootstrap_children_split[OF assms(1), of dirname "scope @ [BootstrapConfig.name config]"]
  obtain rest where ch:
    "Bootstrap_children dirname config (scope @ [BootstrapConfig.name config]) =
           [(BootstrapConfig.name config @ ''-sysadmin'',
               Scope ''GcpProject''
                 (GcpProject_children (project_config config ''-sysadmin'' ''prod'')
                    ((scope @ [BootstrapConfig.name config]) @ [BootstrapConfig.name config @ ''-sysadmin'']))),
            (BootstrapConfig.name config @ ''-dev'',
               Scope ''GcpProject''
                 (GcpProject_children (project_config config ''-dev'' ''dev'')
                    ((scope @ [BootstrapConfig.name config]) @ [BootstrapConfig.name config @ ''-dev'']))),
            (BootstrapConfig.name config @ ''-prod'',
               Scope ''GcpProject''
                 (GcpProject_children (project_config config ''-prod'' ''prod'')
                    ((scope @ [BootstrapConfig.name config]) @ [BootstrapConfig.name config @ ''-prod'']))),
            (''github-admins'',
               Resource ''Team''
                 [(''name'', Str (BootstrapConfig.name config @ ''-admins'')),
                  (''description'',
                     Str (''Administrators for the '' @ BootstrapConfig.name config @ '' project'')),
                  (''privacy'', Str ''closed'')]),
            (BootstrapConfig.name config,
               Scope ''GitHubRepository''
                 (GitHubRepository_children
                    (repository_config (BootstrapConfig.name config)
                       (Ref ((scope @ [BootstrapConfig.name config]) @ [''github-admins'']) ''id'') (appRepositoryConfig config) None)
                    ((scope @ [BootstrapConfig.name config]) @ [BootstrapConfig.name config]))),
            (BootstrapConfig.name config @ ''-infra'',
               Scope ''GitHubRepository''
                 (GitHubRepository_children
                    (repository_config (BootstrapConfig.name config @ ''-infra'')
                       (Ref ((scope @ [BootstrapConfig.name config]) @ [''github-admins'']) ''id'') (infraRepositoryConfig config)
                       (Some [(''reviewers'',
                               Arr [Obj [(''teams'',
                                         Arr [Call ''tonumber''
                                                [Ref ((scope @ [BootstrapConfig.name config]) @ [''github-admins'']) ''id'']])]])]))
                    ((scope @ [BootstrapConfig.name config]) @ [BootstrapConfig.name config @ ''-infra''])))] @ rest"
    and rest: "plain_resources [''RepositoryFile'', ''DnsManagedZone'', ''DnsRecordSet''] rest"
    by blast
  note plain = scopes_of_class_plain[OF rest] resources_of_kind_plain[OF rest, of "''Team''"]
  have a: "added s (snd (Bootstrap dirname config scope s)) =
     [(BootstrapConfig.name config,
       Scope ''Bootstrap''
         (Bootstrap_children dirname config (scope @ [BootstrapConfig.name config])))]"
    by (rule Bootstrap_added[OF assms(2)])
  have l: "''github-admins'' \<noteq> BootstrapConfig.name config @ ''-infra''" 
    by (rule not_sym[OF infra_not_admins])
  show ?thesis
    unfolding Let_def a ch
    using assms(1) l
    by (simp add: scopes_of_class_append resources_of_kind_append plain project_config_def
        repository_config_def literal_eq_append[of "''github-admins''"]
        del: map_of_append)
qed

lemma Bootstrap_identifiers_acme:
  "BootstrapConfig.name acme_bootstrap \<noteq> ''github-admins''
   \<and> BootstrapConfig.name acme_bootstrap \<notin> child_ids empty_world
   \<and> added empty_world (snd (Bootstrap ''/lib'' acme_bootstrap [] empty_world))
       = [(''acme'', Scope ''Bootstrap'' (Bootstrap_children ''/lib'' acme_bootstrap [''acme'']))]
   \<and> scopes_of_class ''GcpProject'' (Bootstrap_children ''/lib'' acme_bootstrap [''acme''])
       = [''acme-sysadmin'', ''acme-dev'', ''acme-prod'']
   \<and> scopes_of_class ''GitHubRepository'' (Bootstrap_children ''/lib'' acme_bootstrap [''acme''])
       = [''acme'', ''acme-infra'']
   \<and> resources_of_kind ''Team'' (Bootstrap_children ''/lib'' acme_bootstrap [''acme''])
       = [(''github-admins'',
           [(''name'', Str ''acme-admins''),
            (''description'', Str ''Administrators for the acme project''),
            (''privacy'', Str ''closed'')])]"
proof -
  have n: "BootstrapConfig.name acme_bootstrap = ''acme''"
    by (simp add: acme_bootstrap_def)
  have h1: "BootstrapConfig.name acme_bootstrap \<noteq> ''github-admins''"
    by (simp add: n)
  have h2: "BootstrapConfig.name acme_bootstrap \<notin> child_ids empty_world"
    by (simp add: child_ids_def empty_world_def)
  from Bootstrap_identifiers[OF h1 h2, of "[]" "''/lib''"] h1 h2 show ?thesis
    by (simp add: Let_def n)
qed

text \<open>
  C7. For a name N the constructor registers the Team under the fixed id
  \<open>github-admins\<close> and then the application repository under N. For every config named
  \<open>github-admins\<close>, composed under a scope where that name is free, the second
  registration collides with the first: composition raises DuplicateIdentifierError, the
  three projects and the Team stay declared, and no GitHubRepository is declared, neither
  \<open>github-admins\<close> nor \<open>github-admins-infra\<close>.
\<close>

theorem C7_github_admins_collision:
  assumes "BootstrapConfig.name config = ''github-admins''"
    and "BootstrapConfig.name config \<notin> child_ids s"
  shows "fst (Bootstrap dirname config scope s) =
           Inl (DuplicateIdentifierError (scope @ [''github-admins'', ''github-admins'']))
     \<and> added s (snd (Bootstrap dirname config scope s)) =
         [(''github-admins'',
           Scope ''Bootstrap'' (Bootstrap_children dirname config (scope @ [''github-admins''])))]
     \<and> scopes_of_class ''GcpProject''
         (Bootstrap_children dirname config (scope @ [''github-admins''])) =
         [''github-admins-sysadmin'', ''github-admins-dev'', ''github-admins-prod'']
     \<and> resources_of_kind ''Team''
         (Bootstrap_children dirname config (scope @ [''github-admins''])) =
         [(''github-admins'',
           [(''name'', Str ''github-admins-admins''),
            (''description'', Str ''Administrators for the github-admins project''),
            (''privacy'', Str ''closed'')])]
     \<and> scopes_of_class ''GitHubRepository''
         (Bootstrap_children dirname config (scope @ [''github-admins''])) = []"
proof -
  have b: "Bootstrap_body dirname config (scope @ [''github-admins'']) empty_world =
      (Inl (DuplicateIdentifierError (scope @ [''github-admins'', ''github-admins''])),
       empty_world\<lparr>kids :=
         [(''github-admins-sysadmin'',
             Scope ''GcpProject''
               (GcpProject_children (project_config config ''-sysadmin'' ''prod'')
                  (scope @ [''github-admins'', ''github-admins-sysadmin'']))),
          (''github-admins-dev'',
             Scope ''GcpProject''
               (GcpProject_children (project_config config ''-dev'' ''dev'')
                  (scope @ [''github-admins'', ''github-admins-dev'']))),
          (''github-admins-prod'',
             Scope ''GcpProject''
               (GcpProject_children (project_config config ''-prod'' ''prod'')
                  (scope @ [''github-admins'', ''github-admins-prod'']))),
          (''github-admins'',
             Resource ''Team''
               [(''name'', Str ''github-admins-admins''),
                (''description'', Str ''Administrators for the github-admins project''),
                (''privacy'', Str ''closed'')])]\<rparr>)"
    using assms(1)
    by (simp add: Bootstrap_body_def bnd_def resource_def child_ids_def empty_world_def
        GcpProject_run GcpProject_result GitHubRepository_def construct_def
        cong: bnd_weak_cong resource_weak_cong Resource_cong)
  from Bootstrap_run[OF assms(2), of dirname scope] assms(1) b show ?thesis
    by (simp add: added_def Bootstrap_result_def Bootstrap_children_def)
qed

theorem C7_github_admins_witness:
  "BootstrapConfig.name github_admins_bootstrap = ''github-admins''
   \<and> BootstrapConfig.name github_admins_bootstrap \<notin> child_ids empty_world
   \<and> fst (Bootstrap ''/lib'' github_admins_bootstrap [] empty_world)
       = Inl (DuplicateIdentifierError [''github-admins'', ''github-admins''])
   \<and> outline (Bootstrap_children ''/lib'' github_admins_bootstrap [''github-admins'']) =
       [(''github-admins-sysadmin'', ''GcpProject''), (''github-admins-dev'', ''GcpProject''),
        (''github-admins-prod'', ''GcpProject''), (''github-admins'', ''Team'')]
   \<and> scopes_of_class ''GitHubRepository''
       (Bootstrap_children ''/lib'' github_admins_bootstrap [''github-admins'']) = []"
proof -
  have n: "BootstrapConfig.name github_admins_bootstrap = ''github-admins''"
    by (simp add: github_admins_bootstrap_def)
  have f: "BootstrapConfig.name github_admins_bootstrap \<notin> child_ids empty_world"
    by (simp add: child_ids_def empty_world_def)
  have o: "outline (Bootstrap_children ''/lib'' github_admins_bootstrap [''github-admins'']) =
       [(''github-admins-sysadmin'', ''GcpProject''), (''github-admins-dev'', ''GcpProject''),
        (''github-admins-prod'', ''GcpProject''), (''github-admins'', ''Team'')]"
    by code_simp
  from C7_github_admins_collision[OF n f, of "''/lib''" "[]"] n f o show ?thesis
    by simp
qed

section \<open>Bootstrap: what is declared when the constructor returns\<close>

lemma outline_append [simp]: "outline (a @ b) = outline a @ outline b"
  by (simp add: outline_def)

lemma outline_Cons [simp]: "outline ((i, n) # r) = (i, kind_of n) # outline r"
  by (simp add: outline_def)

lemma outline_Nil [simp]: "outline [] = []"
  by (simp add: outline_def)

lemma child_ids_outline: "child_ids s = fst ` set (outline (kids s))"
  by (force simp add: child_ids_def outline_def)





















end
